theory Spec2Isabelle
  imports Complex_Main "HOL-Library.Log_Nat"
begin

section \<open>Python values\<close>

text \<open>
  A Python \<open>str\<close> is a sequence of code points, and \<open>len\<close> and slicing count code points,
  so a string is modelled as a list of code points (natural numbers); \<open>u\<close> turns an ASCII
  literal into such a list. A Python \<open>float\<close> is an IEEE double: it is modelled by the
  rational number it denotes, and every float operation of the source rounds its exact
  result to the nearest double (\<open>to_double\<close>). Infinities and NaN are not modelled; the
  values of this program stay far from overflow. Output written by \<open>print\<close> is not
  modelled.
\<close>

type_synonym str = "nat list"

definition u :: "string \<Rightarrow> str" where
  "u s = map of_char s"

definition nl :: str where
  "nl = [10]"

definition em_dash :: str where
  "em_dash = [8212]"

text \<open>The code points that \<open>str.strip()\<close> removes (those with \<open>str.isspace()\<close> true).\<close>

definition isspace :: "nat \<Rightarrow> bool" where
  "isspace c \<longleftrightarrow> c \<in> set [9, 10, 11, 12, 13, 28, 29, 30, 31, 32, 133, 160, 5760,
     8192, 8193, 8194, 8195, 8196, 8197, 8198, 8199, 8200, 8201, 8202,
     8232, 8233, 8239, 8287, 12288]"

definition strip :: "str \<Rightarrow> str" where
  "strip s = rev (dropWhile isspace (rev (dropWhile isspace s)))"

fun join :: "str \<Rightarrow> str list \<Rightarrow> str" where
  "join sep [] = []"
| "join sep [x] = x"
| "join sep (x # y # ys) = x @ sep @ join sep (y # ys)"

text \<open>Decimal rendering of an integer, as an f-string renders it.\<close>

fun str_of_nat :: "nat \<Rightarrow> str" where
  "str_of_nat n = (if n < 10 then [48 + n] else str_of_nat (n div 10) @ [48 + n mod 10])"

declare str_of_nat.simps [simp del]

definition str_of_int :: "int \<Rightarrow> str" where
  "str_of_int i = (if i < 0 then 45 # str_of_nat (nat (- i)) else str_of_nat (nat i))"

text \<open>
  Rounding to an integer with a tie going to the even neighbour, as IEEE arithmetic and
  Python's \<open>round\<close> both do.
\<close>

definition round_half_even :: "rat \<Rightarrow> int" where
  "round_half_even x =
     (let f = \<lfloor>x\<rfloor>; d = x - of_int f
      in if d < 1 / 2 then f
         else if 1 / 2 < d then f + 1
         else if even f then f else f + 1)"

text \<open>
  The double nearest to a rational: \<open>binary_exponent x\<close> is the \<open>e\<close> with
  \<open>2^e \<le> |x| < 2^(e+1)\<close>; a double has 53 significant bits, so \<open>x\<close> is rounded to a
  multiple of \<open>2^(e-52)\<close> (of \<open>2^-1074\<close> in the subnormal range).
\<close>

definition pow2 :: "int \<Rightarrow> rat" where
  "pow2 s = (if 0 \<le> s then 2 ^ nat s else 1 / 2 ^ nat (- s))"

definition binary_exponent :: "rat \<Rightarrow> int" where
  "binary_exponent x =
     (case quotient_of \<bar>x\<bar> of (p, q) \<Rightarrow>
        (let d = bitlen p - bitlen q in if pow2 d \<le> \<bar>x\<bar> then d else d - 1))"

definition to_double :: "rat \<Rightarrow> rat" where
  "to_double x =
     (if x = 0 then 0
      else (let s = max (binary_exponent x - 52) (- 1074)
            in of_int (round_half_even (x / pow2 s)) * pow2 s))"

text \<open>Float addition, subtraction and division (the divisor is never 0 where the source divides).\<close>

definition f_add :: "rat \<Rightarrow> rat \<Rightarrow> rat" where
  "f_add a b = to_double (a + b)"

definition f_sub :: "rat \<Rightarrow> rat \<Rightarrow> rat" where
  "f_sub a b = to_double (a - b)"

definition f_div :: "rat \<Rightarrow> rat \<Rightarrow> rat" where
  "f_div a b = to_double (a / b)"

text \<open>
  \<open>round(x, n)\<close> on a float: the exact value of \<open>x\<close> is rounded to \<open>n\<close> decimal places, a
  tie going to the even neighbour, and the result is the double nearest to that decimal.
\<close>

definition py_round :: "rat \<Rightarrow> nat \<Rightarrow> rat" where
  "py_round x n = to_double (of_int (round_half_even (x * 10 ^ n)) / 10 ^ n)"

text \<open>
  \<open>sum\<close> over floats. Up to Python 3.11 it adds from left to right, starting from 0. From
  Python 3.12 on it also accumulates the rounding error of every addition (Neumaier's
  summation) and adds the accumulated error at the end.
\<close>

definition left_to_right_sum :: "rat list \<Rightarrow> rat" where
  "left_to_right_sum xs = foldl f_add 0 xs"

definition compensated_step :: "rat \<times> rat \<Rightarrow> rat \<Rightarrow> rat \<times> rat" where
  "compensated_step fc x =
     (case fc of (f, c) \<Rightarrow>
        (let t = f_add f x
         in (t, if \<bar>x\<bar> \<le> \<bar>f\<bar> then f_add c (f_add (f_sub f t) x)
                else f_add c (f_add (f_sub x t) f))))"

definition compensated_sum :: "rat list \<Rightarrow> rat" where
  "compensated_sum xs =
     (case foldl compensated_step (0, 0) xs of (f, c) \<Rightarrow> if c \<noteq> 0 then f_add f c else f)"

text \<open>A metadata dictionary: string keys, string or integer values, in insertion order.\<close>

datatype mvalue = MStr str | MInt int

type_synonym dict = "(str \<times> mvalue) list"

definition dict_get :: "dict \<Rightarrow> str \<Rightarrow> mvalue \<Rightarrow> mvalue" where
  "dict_get d k dflt = (case map_of d k of None \<Rightarrow> dflt | Some v \<Rightarrow> v)"

fun py_str :: "mvalue \<Rightarrow> str" where
  "py_str (MStr s) = s"
| "py_str (MInt i) = str_of_int i"

text \<open>
  Every exception of the source is a value. The source raises \<open>ValueError\<close> with a message
  for each of its own checks; \<open>NotFoundError\<close> is the vector database's failure on a
  collection name it does not hold, \<open>EngineError\<close> any other failure of the vector
  database, \<open>GenerationError\<close> a failure of the language model.
\<close>

datatype error =
    ValueError str
  | IndexError
  | NotFoundError str
  | EngineError str
  | GenerationError str

datatype message = SystemMessage str | HumanMessage str

section \<open>The external services\<close>

text \<open>
  The vector database (\<open>chromadb\<close>), the sentence-embedding model, the text splitter
  (\<open>RecursiveCharacterTextSplitter\<close>) and the language model (\<open>ChatOllama\<close>) are libraries
  the source calls; none of them is part of the source. What they compute is a parameter
  of the model (\<open>ports\<close>); what the source can observe of their state is the \<open>world\<close>.
  Two parameters belong to the interpreter: \<open>float_repr\<close>, the text an f-string prints
  for a float, and \<open>sum_compensates\<close>, which tells how \<open>sum\<close> adds floats: by plain
  left-to-right float addition (up to Python 3.11) or by compensated summation (from
  Python 3.12 on).
\<close>

record stored =
  stored_id :: str
  stored_embedding :: "rat list"
  stored_document :: str
  stored_metadata :: dict

record collection =
  col_metadata :: dict
  col_items :: "stored list"

text \<open>
  The answer of \<open>Collection.query\<close> for the one query vector the source passes: the rows
  \<open>results["documents"][0]\<close>, \<open>results["metadatas"][0]\<close> and \<open>results["distances"][0]\<close>.
\<close>

record query_result =
  documents :: "str list"
  metadatas :: "dict list"
  distances :: "rat list"

record ports =
  model_encode :: "str list \<Rightarrow> rat list list"
  name_rejected :: "str \<Rightarrow> str option"
  engine_distance :: "rat list \<Rightarrow> rat list \<Rightarrow> rat"
  query_rejected :: "stored list \<Rightarrow> rat list \<Rightarrow> int \<Rightarrow> str option"
  sum_compensates :: bool
  split_text :: "int \<Rightarrow> int \<Rightarrow> str list \<Rightarrow> str \<Rightarrow> str list"
  llm_reply :: "message list \<Rightarrow> str + str"
  float_repr :: "rat \<Rightarrow> str"

definition py_sum :: "ports \<Rightarrow> rat list \<Rightarrow> rat" where
  "py_sum P xs = (if sum_compensates P then compensated_sum xs else left_to_right_sum xs)"

text \<open>
  The state: the collections of the persistent client, the texts sent to the embedding
  model so far, and the message lists sent to the language model so far.
\<close>

record world =
  client :: "str \<rightharpoonup> collection"
  embedded :: "str list"
  llm_calls :: "message list list"

text \<open>
  The client operations the source uses. A collection handle is the collection's name:
  every operation through the handle acts on the collection the client holds under it.
  \<open>get_or_create_collection\<close> returns the collection of that name, creating it empty
  when the client has none; the engine may reject a name.
\<close>

definition get_or_create_collection ::
  "ports \<Rightarrow> str \<Rightarrow> dict \<Rightarrow> world \<Rightarrow> (error + str) \<times> world" where
  "get_or_create_collection P name md w =
     (case name_rejected P name of
        Some m \<Rightarrow> (Inl (EngineError m), w)
      | None \<Rightarrow>
          (case client w name of
             Some c \<Rightarrow> (Inr name, w)
           | None \<Rightarrow>
               (Inr name,
                w\<lparr>client := (client w)(name \<mapsto> \<lparr>col_metadata = md, col_items = []\<rparr>)\<rparr>)))"

definition get_collection :: "str \<Rightarrow> world \<Rightarrow> error + collection" where
  "get_collection name w =
     (case client w name of None \<Rightarrow> Inl (NotFoundError name) | Some c \<Rightarrow> Inr c)"

definition count :: "collection \<Rightarrow> int" where
  "count c = int (length (col_items c))"

text \<open>
  \<open>Collection.query\<close>, by its contract: the \<open>n_results\<close> stored entries nearest to
  the query vector under the distance of the collection, in ascending distance, fewer
  when the collection holds fewer. It raises when \<open>n_results\<close> is not positive, and may
  refuse a query for reasons of its own (a vector of the wrong dimension, say). The
  distance (the cosine distance, as the engine computes and reports it) is a parameter.
\<close>

definition nearest_rows :: "ports \<Rightarrow> stored list \<Rightarrow> rat list \<Rightarrow> int \<Rightarrow> query_result" where
  "nearest_rows P items q k =
     (let d = (\<lambda>it. engine_distance P q (stored_embedding it));
          hits = take (nat k) (sort_key d items)
      in \<lparr>documents = map stored_document hits,
          metadatas = map stored_metadata hits,
          distances = map d hits\<rparr>)"

definition engine_query :: "ports \<Rightarrow> stored list \<Rightarrow> rat list \<Rightarrow> int \<Rightarrow> str + query_result" where
  "engine_query P items q k =
     (if k \<le> 0 then Inl (u ''Number of requested results must be positive'')
      else
        (case query_rejected P items q k of
           Some m \<Rightarrow> Inl m
         | None \<Rightarrow> Inr (nearest_rows P items q k)))"

definition collection_query ::
  "ports \<Rightarrow> str \<Rightarrow> rat list \<Rightarrow> int \<Rightarrow> world \<Rightarrow> error + query_result" where
  "collection_query P h q k w =
     (case client w h of
        None \<Rightarrow> Inl (NotFoundError h)
      | Some c \<Rightarrow>
          (case engine_query P (col_items c) q k of
             Inl m \<Rightarrow> Inl (EngineError m)
           | Inr r \<Rightarrow> Inr r))"

definition invoke :: "ports \<Rightarrow> message list \<Rightarrow> world \<Rightarrow> (error + str) \<times> world" where
  "invoke P msgs w =
     ((case llm_reply P msgs of Inl m \<Rightarrow> Inl (GenerationError m) | Inr content \<Rightarrow> Inr content),
      w\<lparr>llm_calls := llm_calls w @ [msgs]\<rparr>)"

section \<open>core/vector\_store.py\<close>

text \<open>
  An entry of the list \<open>search\<close> returns: the dictionary with the keys \<open>text\<close>,
  \<open>metadata\<close>, \<open>distance\<close> and \<open>similarity\<close>.
\<close>

record scored_chunk =
  s_text :: str
  s_metadata :: dict
  distance :: rat
  similarity :: rat

definition create_collection :: "ports \<Rightarrow> str \<Rightarrow> world \<Rightarrow> (error + str) \<times> world" where
  "create_collection P collection_name w =
     get_or_create_collection P collection_name [(u ''hnsw:space'', MStr (u ''cosine''))] w"

text \<open>One round of the reformatting loop of \<open>search\<close>; an index out of range raises.\<close>

definition result_row :: "query_result \<Rightarrow> nat \<Rightarrow> error + scored_chunk" where
  "result_row r i =
     (if i < length (documents r) \<and> i < length (metadatas r) \<and> i < length (distances r)
      then Inr \<lparr>s_text = documents r ! i, s_metadata = metadatas r ! i,
                distance = distances r ! i,
                similarity = py_round (f_sub 1 (distances r ! i)) 4\<rparr>
      else Inl IndexError)"

fun collect :: "(nat \<Rightarrow> error + 'a) \<Rightarrow> nat list \<Rightarrow> error + 'a list" where
  "collect f [] = Inr []"
| "collect f (i # is) =
     (case f i of
        Inl e \<Rightarrow> Inl e
      | Inr x \<Rightarrow> (case collect f is of Inl e \<Rightarrow> Inl e | Inr xs \<Rightarrow> Inr (x # xs)))"

definition search ::
  "ports \<Rightarrow> str \<Rightarrow> rat list \<Rightarrow> int \<Rightarrow> world \<Rightarrow> (error + scored_chunk list) \<times> world" where
  "search P collection_name query_embedding n_results w =
     (case create_collection P collection_name w of
        (Inl e, w1) \<Rightarrow> (Inl e, w1)
      | (Inr h, w1) \<Rightarrow>
          (case collection_query P h query_embedding n_results w1 of
             Inl e \<Rightarrow> (Inl e, w1)
           | Inr r \<Rightarrow> (collect (result_row r) [0..<length (documents r)], w1)))"

text \<open>Both lookups catch every exception of \<open>get_collection\<close>.\<close>

definition collection_exists :: "str \<Rightarrow> world \<Rightarrow> bool" where
  "collection_exists collection_name w =
     (case get_collection collection_name w of Inl e \<Rightarrow> False | Inr col \<Rightarrow> 0 < count col)"

definition get_collection_count :: "str \<Rightarrow> world \<Rightarrow> int" where
  "get_collection_count collection_name w =
     (case get_collection collection_name w of Inl e \<Rightarrow> 0 | Inr col \<Rightarrow> count col)"

section \<open>core/embedder.py\<close>

text \<open>
  \<open>embed_single\<close> encodes the one-element batch and takes row 0 of the answer.
\<close>

definition embed_single :: "ports \<Rightarrow> str \<Rightarrow> world \<Rightarrow> (error + rat list) \<times> world" where
  "embed_single P txt w =
     ((case model_encode P [txt] of [] \<Rightarrow> Inl IndexError | v # vs \<Rightarrow> Inr v),
      w\<lparr>embedded := embedded w @ [txt]\<rparr>)"

section \<open>core/retriever.py\<close>

record retriever =
  collection_name :: str
  n_results :: int

definition retrieve ::
  "ports \<Rightarrow> retriever \<Rightarrow> str \<Rightarrow> world \<Rightarrow> (error + scored_chunk list) \<times> world" where
  "retrieve P r query w =
     (if query = [] \<or> strip query = []
      then (Inl (ValueError (u ''Query cannot be empty'')), w)
      else
        (case embed_single P query w of
           (Inl e, w1) \<Rightarrow> (Inl e, w1)
         | (Inr query_embedding, w1) \<Rightarrow>
             search P (collection_name r) query_embedding (n_results r) w1))"

definition context_part :: "ports \<Rightarrow> nat \<times> scored_chunk \<Rightarrow> str" where
  "context_part P ic =
     (case ic of (i, chunk) \<Rightarrow>
        u ''[CONTEXT '' @ str_of_nat (i + 1) @ u '' | Source: ''
        @ py_str (dict_get (s_metadata chunk) (u ''source'') (MStr (u ''unknown'')))
        @ u '' | Relevance: '' @ float_repr P (similarity chunk) @ u '']'' @ nl
        @ s_text chunk)"

definition retrieve_as_context ::
  "ports \<Rightarrow> retriever \<Rightarrow> str \<Rightarrow> world \<Rightarrow> (error + str) \<times> world" where
  "retrieve_as_context P r query w =
     (case retrieve P r query w of
        (Inl e, w1) \<Rightarrow> (Inl e, w1)
      | (Inr chunks, w1) \<Rightarrow>
          (if chunks = [] then (Inr (u ''No relevant context found.''), w1)
           else (Inr (join (nl @ nl @ u ''---'' @ nl @ nl)
                        (map (context_part P) (enumerate 0 chunks))), w1)))"

definition retrieve_with_scores ::
  "ports \<Rightarrow> retriever \<Rightarrow> str \<Rightarrow> world \<Rightarrow> (error + scored_chunk list \<times> rat) \<times> world" where
  "retrieve_with_scores P r query w =
     (case retrieve P r query w of
        (Inl e, w1) \<Rightarrow> (Inl e, w1)
      | (Inr chunks, w1) \<Rightarrow>
          (if chunks = [] then (Inr ([], 0), w1)
           else
             (let avg_score =
                    f_div (py_sum P (map similarity chunks)) (of_nat (length chunks))
              in (Inr (chunks, py_round avg_score 4), w1))))"

definition is_relevant ::
  "ports \<Rightarrow> retriever \<Rightarrow> str \<Rightarrow> rat \<Rightarrow> world \<Rightarrow> (error + bool) \<times> world" where
  "is_relevant P r query threshold w =
     (case retrieve_with_scores P r query w of
        (Inl e, w1) \<Rightarrow> (Inl e, w1)
      | (Inr (chunks, avg_score), w1) \<Rightarrow> (Inr (threshold \<le> avg_score), w1))"

section \<open>core/translator.py\<close>

definition SUPPORTED_LANGUAGES :: "str list" where
  "SUPPORTED_LANGUAGES =
     [u ''Hindi'', u ''Gujarati'', u ''Spanish'', u ''French'', u ''German'',
      u ''Chinese'', u ''Japanese'', u ''Arabic'', u ''Portuguese'', u ''Italian'',
      u ''Korean'', u ''Russian'', u ''Dutch'', u ''Turkish'', u ''Bengali'']"

record answer_result =
  answer :: str
  context_used :: "scored_chunk list"
  avg_relevance :: rat

record translate_result =
  translation :: str
  target_language :: str
  t_context_used :: "scored_chunk list"

definition no_information :: str where
  "no_information =
     u ''I couldn't find relevant information in the paper to answer this question.''"

definition qa_system :: str where
  "qa_system =
     u ''You are an expert research paper assistant.'' @ nl
     @ u ''Your job is to answer questions about research papers clearly and accurately.'' @ nl
     @ nl
     @ u ''Rules:'' @ nl
     @ u ''- Only use the provided context to answer'' @ nl
     @ u ''- If the context doesn't contain the answer, say so honestly'' @ nl
     @ u ''- Use simple language to explain complex concepts'' @ nl
     @ u ''- Be concise but complete'' @ nl
     @ u ''- Always cite which context section your answer comes from''"

definition qa_human :: "str \<Rightarrow> str \<Rightarrow> str" where
  "qa_human context question =
     u ''Here is the relevant context from the research paper:'' @ nl
     @ nl
     @ context @ nl
     @ nl
     @ u ''Based on the context above, please answer this question:'' @ nl
     @ question"

definition answer_question ::
  "ports \<Rightarrow> retriever \<Rightarrow> str \<Rightarrow> world \<Rightarrow> (error + answer_result) \<times> world" where
  "answer_question P r question w =
     (if strip question = []
      then (Inl (ValueError (u ''Question cannot be empty'')), w)
      else
        (case retrieve_with_scores P r question w of
           (Inl e, w1) \<Rightarrow> (Inl e, w1)
         | (Inr (chunks, avg), w1) \<Rightarrow>
             (if avg < 1 / 4
              then (Inr \<lparr>answer = no_information, context_used = [],
                          avg_relevance = avg\<rparr>, w1)
              else
                (case retrieve_as_context P r question w1 of
                   (Inl e, w2) \<Rightarrow> (Inl e, w2)
                 | (Inr context, w2) \<Rightarrow>
                     (case invoke P [SystemMessage qa_system,
                                     HumanMessage (qa_human context question)] w2 of
                        (Inl e, w3) \<Rightarrow> (Inl e, w3)
                      | (Inr content, w3) \<Rightarrow>
                          (Inr \<lparr>answer = content, context_used = chunks,
                                 avg_relevance = avg\<rparr>, w3))))))"

definition translate_system :: "str \<Rightarrow> str" where
  "translate_system language =
     u ''You are an expert scientific translator '' @ nl
     @ u ''specializing in translating research papers into '' @ language @ u ''.'' @ nl
     @ nl
     @ u ''Rules:'' @ nl
     @ u ''- Translate accurately and naturally into '' @ language @ nl
     @ u ''- Preserve all technical terms correctly'' @ nl
     @ u ''- Keep the academic tone of the original'' @ nl
     @ u ''- Do not add explanations '' @ em_dash @ u '' only translate'' @ nl
     @ u ''- If a technical term has no translation, keep it in English''"

definition reference_part :: "nat \<times> scored_chunk \<Rightarrow> str" where
  "reference_part ic =
     (case ic of (i, c) \<Rightarrow> u ''[Reference '' @ str_of_nat (i + 1) @ u '']: '' @ s_text c)"

definition human_with_context :: "str \<Rightarrow> str \<Rightarrow> str \<Rightarrow> str" where
  "human_with_context context language txt =
     u ''Use this reference context for correct technical terminology:'' @ nl
     @ nl
     @ context @ nl
     @ nl
     @ u ''Now translate the following text into '' @ language @ u '':'' @ nl
     @ nl
     @ txt @ nl
     @ nl
     @ u ''Provide ONLY the translation, nothing else.''"

definition human_without_context :: "str \<Rightarrow> str \<Rightarrow> str" where
  "human_without_context language txt =
     u ''Translate the following research paper text into '' @ language @ u '':'' @ nl
     @ nl
     @ txt @ nl
     @ nl
     @ u ''Provide ONLY the translation, nothing else.''"

text \<open>
  The block of \<open>translate\<close> that fills \<open>context\<close> and \<open>chunks\<close>: both start empty, and
  only \<open>use_context\<close> retrieves.
\<close>

definition translation_context ::
  "ports \<Rightarrow> retriever \<Rightarrow> str \<Rightarrow> bool \<Rightarrow> world \<Rightarrow> (error + str \<times> scored_chunk list) \<times> world" where
  "translation_context P r txt use_context w =
     (if use_context
      then
        (case retrieve_with_scores P r (take 200 txt) w of
           (Inl e, w1) \<Rightarrow> (Inl e, w1)
         | (Inr (chunks, avg), w1) \<Rightarrow>
             (if chunks \<noteq> []
              then (Inr (join (nl @ nl) (map reference_part (enumerate 0 (take 2 chunks))),
                         chunks), w1)
              else (Inr ([], chunks), w1)))
      else (Inr ([], []), w))"

definition translate ::
  "ports \<Rightarrow> retriever \<Rightarrow> str \<Rightarrow> str \<Rightarrow> bool \<Rightarrow> world \<Rightarrow> (error + translate_result) \<times> world" where
  "translate P r txt language use_context w =
     (if strip txt = []
      then (Inl (ValueError (u ''Text to translate cannot be empty'')), w)
      else if language \<notin> set SUPPORTED_LANGUAGES
      then (Inl (ValueError (u ''Language not supported. Choose from: ''
                              @ join (u '', '') SUPPORTED_LANGUAGES)), w)
      else
        (case translation_context P r txt use_context w of
           (Inl e, w1) \<Rightarrow> (Inl e, w1)
         | (Inr (context, chunks), w1) \<Rightarrow>
             (let human_content =
                    (if context \<noteq> [] then human_with_context context language txt
                     else human_without_context language txt)
              in case invoke P [SystemMessage (translate_system language),
                                HumanMessage human_content] w1 of
                   (Inl e, w2) \<Rightarrow> (Inl e, w2)
                 | (Inr content, w2) \<Rightarrow>
                     (Inr \<lparr>translation = content, target_language = language,
                            t_context_used = chunks\<rparr>, w2))))"

section \<open>core/chunker.py\<close>

record chunk =
  c_id :: str
  c_text :: str
  c_metadata :: dict

record chunker =
  chunk_size :: int
  chunk_overlap :: int
  chunks :: "chunk list"

definition separators :: "str list" where
  "separators = [nl @ nl, nl, u ''.'', u ''!'', u ''?'', u '' '']"

definition make_chunk :: "str \<Rightarrow> nat \<Rightarrow> nat \<times> str \<Rightarrow> chunk" where
  "make_chunk source_name n ic =
     (case ic of (index, chunk_text) \<Rightarrow>
        \<lparr>c_id = source_name @ u ''_chunk_'' @ str_of_nat index,
         c_text = chunk_text,
         c_metadata =
           [(u ''source'', MStr source_name),
            (u ''chunk_index'', MInt (int index)),
            (u ''total_chunks'', MInt (int n)),
            (u ''char_count'', MInt (int (length chunk_text)))]\<rparr>)"

definition split :: "ports \<Rightarrow> chunker \<Rightarrow> str \<Rightarrow> str \<Rightarrow> error + chunker" where
  "split P self txt source_name =
     (if txt = [] \<or> strip txt = []
      then Inl (ValueError (u ''Text is empty '' @ em_dash @ u '' nothing to chunk''))
      else
        (let raw_chunks = split_text P (chunk_size self) (chunk_overlap self) separators txt
         in Inr (self\<lparr>chunks :=
                   map (make_chunk source_name (length raw_chunks)) (enumerate 0 raw_chunks)\<rparr>)))"

definition get_chunks :: "chunker \<Rightarrow> chunk list" where
  "get_chunks self = chunks self"

section \<open>A concrete setting for examples\<close>

text \<open>
  Stand-ins for the external services, used only to run the model on concrete inputs:
  an embedding model that maps every text to the first unit vector, a vector database
  whose distance is \<open>1 - a \<bullet> b\<close> (the cosine distance of unit vectors), which
  refuses no query and accepts names of 3 to 63 characters, a splitter that cuts
  fixed-width pieces, a language model that always answers \<open>ok\<close>, and the \<open>sum\<close> of
  Python 3.11.
\<close>

definition dot :: "rat list \<Rightarrow> rat list \<Rightarrow> rat" where
  "dot a b = sum_list (map2 (*) a b)"

definition unit_cosine_distance :: "rat list \<Rightarrow> rat list \<Rightarrow> rat" where
  "unit_cosine_distance a b = 1 - dot a b"

function pieces :: "nat \<Rightarrow> str \<Rightarrow> str list" where
  "pieces n xs = (if n = 0 \<or> xs = [] then [] else take n xs # pieces n (drop n xs))"
  by pat_completeness auto
termination
  by (relation "measure (\<lambda>(n, xs). length xs)") auto

declare pieces.simps [simp del]

definition fraction_repr :: "rat \<Rightarrow> str" where
  "fraction_repr x = (case quotient_of x of (p, q) \<Rightarrow> str_of_int p @ u ''/'' @ str_of_int q)"

definition demo_ports :: ports where
  "demo_ports =
     \<lparr>model_encode = map (\<lambda>t. [1, 0, 0, 0, 0]),
      name_rejected =
        (\<lambda>name. if 3 \<le> length name \<and> length name \<le> 63 then None
                 else Some (u ''invalid collection name'')),
      engine_distance = unit_cosine_distance,
      query_rejected = (\<lambda>items q k. None),
      sum_compensates = False,
      split_text = (\<lambda>size overlap seps txt. pieces (nat size) txt),
      llm_reply = (\<lambda>msgs. Inr (u ''ok'')),
      float_repr = fraction_repr\<rparr>"

definition paper_meta :: dict where
  "paper_meta = [(u ''source'', MStr (u ''paper.pdf''))]"

definition demo_item :: "str \<Rightarrow> rat list \<Rightarrow> stored" where
  "demo_item doc v =
     \<lparr>stored_id = doc, stored_embedding = v, stored_document = doc,
      stored_metadata = paper_meta\<rparr>"

definition papers :: collection where
  "papers =
     \<lparr>col_metadata = [(u ''hnsw:space'', MStr (u ''cosine''))],
      col_items =
        [demo_item (u ''half'') [1 / 2, 1 / 2, 1 / 2, 1 / 2, 0],
         demo_item (u ''same'') [1, 0, 0, 0, 0],
         demo_item (u ''fine'') [1 / 64, 63 / 64, 11 / 64, 2 / 64, 1 / 64]]\<rparr>"

definition cooking :: collection where
  "cooking =
     \<lparr>col_metadata = [(u ''hnsw:space'', MStr (u ''cosine''))],
      col_items =
        [demo_item (u ''salt'') [0, 1, 0, 0, 0],
         demo_item (u ''half'') [1 / 2, 1 / 2, 1 / 2, 1 / 2, 0],
         demo_item (u ''sugar'') [0, 0, 1, 0, 0]]\<rparr>"

text \<open>
  Two entries whose similarities to the first unit vector, 0.4997 and 0.0002, have a mean
  that lies half-way between two 4-place decimals.
\<close>

definition ties :: collection where
  "ties =
     \<lparr>col_metadata = [(u ''hnsw:space'', MStr (u ''cosine''))],
      col_items =
        [demo_item (u ''far'') [2 / 10000, 0, 0, 0, 0],
         demo_item (u ''near'') [4997 / 10000, 0, 0, 0, 0]]\<rparr>"

definition empty_world :: world where
  "empty_world = \<lparr>client = Map.empty, embedded = [], llm_calls = []\<rparr>"

definition demo_world :: world where
  "demo_world =
     \<lparr>client = [u ''research_papers'' \<mapsto> papers, u ''cooking'' \<mapsto> cooking,
                u ''drafts'' \<mapsto> \<lparr>col_metadata = [], col_items = []\<rparr>,
                u ''ties'' \<mapsto> ties],
      embedded = [], llm_calls = []\<rparr>"

definition papers_retriever :: retriever where
  "papers_retriever = \<lparr>collection_name = u ''research_papers'', n_results = 5\<rparr>"

definition cooking_retriever :: retriever where
  "cooking_retriever = \<lparr>collection_name = u ''cooking'', n_results = 5\<rparr>"

text \<open>What the cooking collection returns for the first unit vector.\<close>

definition cake :: "scored_chunk list" where
  "cake = [\<lparr>s_text = u ''half'', s_metadata = paper_meta, distance = 1 / 2, similarity = 1 / 2\<rparr>,
        \<lparr>s_text = u ''salt'', s_metadata = paper_meta, distance = 1, similarity = 0\<rparr>,
        \<lparr>s_text = u ''sugar'', s_metadata = paper_meta, distance = 1, similarity = 0\<rparr>]"

text \<open>What the papers collection returns for the first unit vector.\<close>

definition papers_hits :: "scored_chunk list" where
  "papers_hits =
     [\<lparr>s_text = u ''same'', s_metadata = paper_meta, distance = 0, similarity = 1\<rparr>,
      \<lparr>s_text = u ''half'', s_metadata = paper_meta, distance = 1 / 2, similarity = 1 / 2\<rparr>,
      \<lparr>s_text = u ''fine'', s_metadata = paper_meta, distance = 63 / 64,
         similarity = 4496393867966703 / 288230376151711744\<rparr>]"

text \<open>What the ties collection returns for the first unit vector.\<close>

definition ties_retriever :: retriever where
  "ties_retriever = \<lparr>collection_name = u ''ties'', n_results = 2\<rparr>"

definition tie_hits :: "scored_chunk list" where
  "tie_hits =
     [\<lparr>s_text = u ''near'', s_metadata = paper_meta, distance = 5003 / 10000,
         similarity = 9001794935188147 / 18014398509481984\<rparr>,
      \<lparr>s_text = u ''far'', s_metadata = paper_meta, distance = 9998 / 10000,
         similarity = 7378697629483821 / 36893488147419103232\<rparr>]"

text \<open>A retriever on the empty collection, and a text longer than 200 characters.\<close>

definition drafts_retriever :: retriever where
  "drafts_retriever = \<lparr>collection_name = u ''drafts'', n_results = 5\<rparr>"

definition long_text :: str where
  "long_text = replicate 200 97 @ u ''tail''"

text \<open>A text whose first 200 characters are blank.\<close>

definition padded_text :: str where
  "padded_text = replicate 200 32 @ u ''tail''"

text \<open>The system message of a translation into French, written out.\<close>

definition french_system :: str where
  "french_system =
     u ''You are an expert scientific translator '' @ nl
     @ u ''specializing in translating research papers into French.'' @ nl
     @ nl
     @ u ''Rules:'' @ nl
     @ u ''- Translate accurately and naturally into French'' @ nl
     @ u ''- Preserve all technical terms correctly'' @ nl
     @ u ''- Keep the academic tone of the original'' @ nl
     @ u ''- Do not add explanations '' @ [8212] @ u '' only translate'' @ nl
     @ u ''- If a technical term has no translation, keep it in English''"

section \<open>Float arithmetic\<close>

text \<open>
  Known values of Python: \<open>0.1\<close> is the double \<open>3602879701896397 / 2^55\<close>;
  \<open>0.1 + 0.2 + 0.3\<close> is \<open>0.6000000000000001\<close> from left to right and \<open>0.6\<close> with the
  compensated sum; \<open>round(0.125, 2)\<close> is \<open>0.12\<close> and \<open>round(2.675, 2)\<close> is \<open>2.67\<close>.
\<close>

lemma double_one_tenth: "to_double (1 / 10) = 3602879701896397 / 36028797018963968"
  by code_simp

lemma sum_three_tenths:
  "left_to_right_sum [to_double (1 / 10), to_double (2 / 10), to_double (3 / 10)]
     = 1351079888211149 / 2251799813685248"
  "compensated_sum [to_double (1 / 10), to_double (2 / 10), to_double (3 / 10)]
     = to_double (6 / 10)"
  by code_simp+

lemma round_known_values:
  "py_round (1 / 8) 2 = to_double (12 / 100)"
  "py_round (to_double (2675 / 1000)) 2 = to_double (267 / 100)"
  by code_simp+

section \<open>The vector store\<close>

subsection \<open>Creating a collection\<close>

lemma create_collection_existing:
  "name_rejected P name = None \<Longrightarrow> client w name = Some c \<Longrightarrow>
   create_collection P name w = (Inr name, w)"
  by (simp add: create_collection_def get_or_create_collection_def)

lemma create_collection_Inr:
  assumes "create_collection P name w = (Inr h, w1)"
  shows "h = name" and "name_rejected P name = None" and "\<exists>c. client w1 name = Some c"
    and "embedded w1 = embedded w" and "llm_calls w1 = llm_calls w"
  using assms
  by (auto simp: create_collection_def get_or_create_collection_def split: option.splits)

lemma create_collection_Inl:
  "create_collection P name w = (Inl e, w1) \<Longrightarrow> w1 = w \<and> (\<exists>m. e = EngineError m)"
  by (auto simp: create_collection_def get_or_create_collection_def split: option.splits)

lemma demo_name_ok: "name_rejected demo_ports (u ''research_papers'') = None"
  by (simp add: demo_ports_def u_def)

lemma demo_client_papers: "client demo_world (u ''research_papers'') = Some papers"
  by (simp add: demo_world_def u_def)

lemma empty_world_client: "client empty_world name = None"
  by (simp add: empty_world_def)

text \<open>
  Claim C9. \<open>create_collection\<close> is idempotent: once a call with a name has returned a
  handle, a second call with the same name returns the same handle and leaves the whole
  state as it is; the handle is usable (the client holds a collection under it), and the
  collection's count is what it was.
\<close>

theorem create_collection_idempotent:
  assumes "create_collection P name w = (Inr h, w1)"
  shows "create_collection P name w1 = (Inr h, w1)
       \<and> (\<exists>c. get_collection h w1 = Inr c)
       \<and> get_collection_count name (snd (create_collection P name w1))
           = get_collection_count name w1"
proof -
  from create_collection_Inr(1-3)[OF assms] obtain c where
    h: "h = name" and ok: "name_rejected P name = None" and c: "client w1 name = Some c"
    by blast
  have again: "create_collection P name w1 = (Inr h, w1)"
    using create_collection_existing[OF ok c] h by simp
  moreover have "get_collection h w1 = Inr c"
    using c h by (simp add: get_collection_def)
  ultimately show ?thesis by simp
qed

theorem create_collection_idempotent_witness:
  "create_collection demo_ports (u ''research_papers'') demo_world
     = (Inr (u ''research_papers''), demo_world)
   \<and> get_collection_count (u ''research_papers'')
        (snd (create_collection demo_ports (u ''research_papers'') demo_world)) = 3
   \<and> create_collection demo_ports (u ''research_papers'')
        (snd (create_collection demo_ports (u ''research_papers'') empty_world))
     = (Inr (u ''research_papers''),
        snd (create_collection demo_ports (u ''research_papers'') empty_world))"
proof -
  have first: "create_collection demo_ports (u ''research_papers'') demo_world
                 = (Inr (u ''research_papers''), demo_world)"
    using demo_name_ok demo_client_papers by (rule create_collection_existing)
  have "get_collection_count (u ''research_papers'') demo_world = 3"
    using demo_client_papers
    by (simp add: get_collection_count_def get_collection_def count_def papers_def)
  with create_collection_idempotent[OF first]
  have kept: "get_collection_count (u ''research_papers'')
        (snd (create_collection demo_ports (u ''research_papers'') demo_world)) = 3"
    by simp
  have fresh: "create_collection demo_ports (u ''research_papers'') empty_world
     = (Inr (u ''research_papers''),
        snd (create_collection demo_ports (u ''research_papers'') empty_world))"
    using demo_name_ok empty_world_client[of "u ''research_papers''"]
    by (simp add: create_collection_def get_or_create_collection_def)
  from create_collection_idempotent[OF fresh]
  have again: "create_collection demo_ports (u ''research_papers'')
        (snd (create_collection demo_ports (u ''research_papers'') empty_world))
     = (Inr (u ''research_papers''),
        snd (create_collection demo_ports (u ''research_papers'') empty_world))"
    by (rule conjunct1)
  from first kept again show ?thesis by (intro conjI)
qed

subsection \<open>Counting\<close>

text \<open>
  Claim C10. For a collection name the client does not hold, \<open>get_collection_count\<close>
  is 0 and \<open>collection_exists\<close> is false; both are total (they return a number and a
  truth value, never an error), and \<open>collection_exists\<close> is true exactly when the client
  holds the collection and it has at least one entry.
\<close>

theorem missing_collection_counts_zero:
  "(client w name = None \<longrightarrow> get_collection_count name w = 0 \<and> \<not> collection_exists name w)
   \<and> (collection_exists name w \<longleftrightarrow> (\<exists>c. client w name = Some c \<and> col_items c \<noteq> []))"
  by (auto simp: get_collection_count_def collection_exists_def get_collection_def count_def
           split: option.splits)

theorem missing_collection_counts_zero_witness:
  "client empty_world (u ''research_papers'') = None
   \<and> get_collection_count (u ''research_papers'') empty_world = 0
   \<and> \<not> collection_exists (u ''research_papers'') empty_world
   \<and> collection_exists (u ''research_papers'') demo_world"
proof -
  have none: "client empty_world (u ''research_papers'') = None"
    by (rule empty_world_client)
  have some: "client demo_world (u ''research_papers'') = Some papers \<and> col_items papers \<noteq> []"
    using demo_client_papers by (simp add: papers_def)
  from missing_collection_counts_zero[of empty_world "u ''research_papers''"]
       missing_collection_counts_zero[of demo_world "u ''research_papers''"] none some
  show ?thesis by blast
qed

subsection \<open>Searching\<close>

lemma collect_Inr:
  "collect f js = Inr xs \<Longrightarrow>
   length xs = length js \<and> (\<forall>i<length js. f (js ! i) = Inr (xs ! i))"
proof (induction js arbitrary: xs)
  case Nil
  then show ?case by simp
next
  case (Cons j js)
  then obtain x ys where x: "f j = Inr x" and ys: "collect f js = Inr ys" and xs: "xs = x # ys"
    by (auto split: sum.splits)
  from Cons.IH[OF ys] have "length ys = length js" and "\<forall>i<length js. f (js ! i) = Inr (ys ! i)"
    by simp_all
  then show ?case using x xs by (auto simp: nth_Cons split: nat.splits)
qed

lemma collect_Inl:
  "collect f js = Inl e \<Longrightarrow> \<exists>j\<in>set js. f j = Inl e"
  by (induction js) (auto split: sum.splits)

lemma result_row_Inl: "result_row r i = Inl e \<Longrightarrow> e = IndexError"
  by (auto simp: result_row_def split: if_splits)

lemma search_existing:
  assumes "name_rejected P name = None" and "client w name = Some c"
    and "engine_query P (col_items c) q k = Inr r"
  shows "search P name q k w = (collect (result_row r) [0..<length (documents r)], w)"
  using assms create_collection_existing[OF assms(1,2)]
  by (simp add: search_def collection_query_def)

lemma search_Inr:
  assumes "search P name q k w = (Inr cs, w1)"
  shows "\<exists>c r. create_collection P name w = (Inr name, w1) \<and> client w1 name = Some c
           \<and> engine_query P (col_items c) q k = Inr r
           \<and> collect (result_row r) [0..<length (documents r)] = Inr cs"
proof -
  from assms obtain h where cc: "create_collection P name w = (Inr h, w1)"
    by (auto simp: search_def split: prod.splits sum.splits)
  from create_collection_Inr(1)[OF cc] have h: "h = name" .
  from assms cc h obtain r where q: "collection_query P name q k w1 = Inr r"
    and col: "collect (result_row r) [0..<length (documents r)] = Inr cs"
    by (auto simp: search_def split: prod.splits sum.splits)
  from q obtain c where "client w1 name = Some c" and "engine_query P (col_items c) q k = Inr r"
    by (auto simp: collection_query_def split: option.splits sum.splits)
  with cc h col show ?thesis by blast
qed

lemma rows_of_answer:
  assumes "collect (result_row r) [0..<length (documents r)] = Inr cs"
  shows "length cs = length (documents r)"
    and "i < length cs \<Longrightarrow> cs ! i = \<lparr>s_text = documents r ! i, s_metadata = metadatas r ! i,
            distance = distances r ! i, similarity = py_round (f_sub 1 (distances r ! i)) 4\<rparr>"
    and "i < length cs \<Longrightarrow> i < length (distances r)"
proof -
  from collect_Inr[OF assms] have len: "length cs = length (documents r)"
    and rows: "\<forall>i<length (documents r). result_row r ([0..<length (documents r)] ! i) = Inr (cs ! i)"
    by simp_all
  show "length cs = length (documents r)" by (rule len)
  { assume i: "i < length cs"
    with len rows have "result_row r i = Inr (cs ! i)" by simp
    then show "cs ! i = \<lparr>s_text = documents r ! i, s_metadata = metadatas r ! i,
            distance = distances r ! i, similarity = py_round (f_sub 1 (distances r ! i)) 4\<rparr>"
      and "i < length (distances r)"
      by (auto simp: result_row_def split: if_splits) }
qed

lemma rows_distances:
  assumes "collect (result_row r) [0..<length (documents r)] = Inr cs"
  shows "map distance cs = take (length cs) (distances r)"
proof (rule nth_equalityI)
  show "length (map distance cs) = length (take (length cs) (distances r))"
  proof (cases cs)
    case Nil
    then show ?thesis by simp
  next
    case (Cons a list)
    then have "length cs - 1 < length cs" by simp
    from rows_of_answer(3)[OF assms this] show ?thesis by simp
  qed
next
  fix i assume "i < length (map distance cs)"
  then have i: "i < length cs" by simp
  from rows_of_answer(2)[OF assms i] i
  show "map distance cs ! i = take (length cs) (distances r) ! i"
    by simp
qed

lemma rows_similarity:
  assumes "collect (result_row r) [0..<length (documents r)] = Inr cs" and "x \<in> set cs"
  shows "similarity x = py_round (f_sub 1 (distance x)) 4"
proof -
  from assms(2) obtain i where i: "i < length cs" and x: "x = cs ! i"
    by (auto simp: in_set_conv_nth)
  from rows_of_answer(2)[OF assms(1) i] x show ?thesis by simp
qed

lemma demo_nearest_papers:
  "engine_query demo_ports (col_items papers) [1, 0, 0, 0, 0] 5 =
     Inr \<lparr>documents = [u ''same'', u ''half'', u ''fine''],
          metadatas = [paper_meta, paper_meta, paper_meta],
          distances = [0, 1 / 2, 63 / 64]\<rparr>"
  by code_simp

lemma demo_rows_papers:
  "collect (result_row \<lparr>documents = [u ''same'', u ''half'', u ''fine''],
          metadatas = [paper_meta, paper_meta, paper_meta],
          distances = [0, 1 / 2, 63 / 64]\<rparr>)
      [0..<length (documents \<lparr>documents = [u ''same'', u ''half'', u ''fine''],
          metadatas = [paper_meta, paper_meta, paper_meta],
          distances = [0, 1 / 2, 63 / 64]\<rparr>)] =
   Inr [\<lparr>s_text = u ''same'', s_metadata = paper_meta, distance = 0, similarity = 1\<rparr>,
        \<lparr>s_text = u ''half'', s_metadata = paper_meta, distance = 1 / 2, similarity = 1 / 2\<rparr>,
        \<lparr>s_text = u ''fine'', s_metadata = paper_meta, distance = 63 / 64,
           similarity = 4496393867966703 / 288230376151711744\<rparr>]"
  by code_simp

lemma demo_search_papers:
  "search demo_ports (u ''research_papers'') [1, 0, 0, 0, 0] 5 demo_world =
     (Inr [\<lparr>s_text = u ''same'', s_metadata = paper_meta, distance = 0, similarity = 1\<rparr>,
        \<lparr>s_text = u ''half'', s_metadata = paper_meta, distance = 1 / 2, similarity = 1 / 2\<rparr>,
        \<lparr>s_text = u ''fine'', s_metadata = paper_meta, distance = 63 / 64,
           similarity = 4496393867966703 / 288230376151711744\<rparr>],
      demo_world)"
  by (simp only: search_existing[OF demo_name_ok demo_client_papers demo_nearest_papers]
        demo_rows_papers)

lemma search_not_NotFound: "fst (search P name q k w) \<noteq> Inl (NotFoundError m)"
proof
  assume a: "fst (search P name q k w) = Inl (NotFoundError m)"
  obtain res w0 where cc: "create_collection P name w = (res, w0)" by (cases "create_collection P name w")
  show False
  proof (cases res)
    case (Inl e)
    with cc create_collection_Inl[of P name w e w0] a show False
      by (auto simp: search_def)
  next
    case (Inr h)
    with cc create_collection_Inr(1,3)[of P name w h w0] obtain c where
      h: "h = name" and c: "client w0 name = Some c" by auto
    show False
    proof (cases "engine_query P (col_items c) q k")
      case (Inl msg)
      with a cc Inr h c show False by (simp add: search_def collection_query_def)
    next
      case r: (Inr r)
      with a cc Inr h c have "collect (result_row r) [0..<length (documents r)] = Inl (NotFoundError m)"
        by (simp add: search_def collection_query_def)
      from collect_Inl[OF this] result_row_Inl show False by blast
    qed
  qed
qed

lemma search_missing:
  assumes "name_rejected P name = None" and "client w name = None"
    and "engine_query P [] q k = Inr r"
  shows "search P name q k w = (collect (result_row r) [0..<length (documents r)],
           w\<lparr>client := (client w)(name \<mapsto>
              \<lparr>col_metadata = [(u ''hnsw:space'', MStr (u ''cosine''))], col_items = []\<rparr>)\<rparr>)"
  using assms
  by (simp add: search_def collection_query_def create_collection_def get_or_create_collection_def)

lemma demo_nearest_nothing:
  "engine_query demo_ports [] [1, 0, 0, 0, 0] 5 = Inr \<lparr>documents = [], metadatas = [], distances = []\<rparr>"
  by code_simp


lemma demo_drafts_ok: "name_rejected demo_ports (u ''drafts'') = None"
  by (simp add: demo_ports_def u_def)

lemma demo_client_drafts:
  "client demo_world (u ''drafts'') = Some \<lparr>col_metadata = [], col_items = []\<rparr>"
  by (simp add: demo_world_def u_def)

lemma demo_nearest_drafts:
  "engine_query demo_ports (col_items \<lparr>col_metadata = [], col_items = []\<rparr>) [1, 0, 0, 0, 0] 5 =
     Inr \<lparr>documents = [], metadatas = [], distances = []\<rparr>"
  using demo_nearest_nothing by simp

text \<open>
  Claim C2 (as amended). \<open>search\<close> never fails with the engine's "collection not found":
  it opens the collection with \<open>create_collection\<close>, which creates a missing one. So a
  name the client never held is treated like a collection that exists and is empty: when
  the engine accepts the name and answers a query on an empty collection with no rows,
  \<open>search\<close> returns the empty list in both cases, and afterwards the client holds the
  (empty) collection.
\<close>

theorem search_creates_missing_collection:
  "fst (search P name q k w) \<noteq> Inl (NotFoundError m)
   \<and> (name_rejected P name = None
        \<and> engine_query P [] q k = Inr \<lparr>documents = [], metadatas = [], distances = []\<rparr>
        \<and> (client w name = None \<or> (\<exists>c. client w name = Some c \<and> col_items c = []))
      \<longrightarrow> fst (search P name q k w) = Inr []
          \<and> (\<exists>c. client (snd (search P name q k w)) name = Some c \<and> col_items c = []))"
proof (intro conjI impI)
  show "fst (search P name q k w) \<noteq> Inl (NotFoundError m)" by (rule search_not_NotFound)
next
  assume a: "name_rejected P name = None
        \<and> engine_query P [] q k = Inr \<lparr>documents = [], metadatas = [], distances = []\<rparr>
        \<and> (client w name = None \<or> (\<exists>c. client w name = Some c \<and> col_items c = []))"
  then have ok: "name_rejected P name = None"
    and quiet: "engine_query P [] q k = Inr \<lparr>documents = [], metadatas = [], distances = []\<rparr>"
    and held: "client w name = None \<or> (\<exists>c. client w name = Some c \<and> col_items c = [])"
    by simp_all
  from held have "fst (search P name q k w) = Inr []
          \<and> (\<exists>c. client (snd (search P name q k w)) name = Some c \<and> col_items c = [])"
  proof (elim disjE exE conjE)
    assume absent: "client w name = None"
    from search_missing[OF ok absent quiet] show ?thesis by simp
  next
    fix c assume c: "client w name = Some c" and e: "col_items c = []"
    from e quiet have "engine_query P (col_items c) q k
                         = Inr \<lparr>documents = [], metadatas = [], distances = []\<rparr>"
      by simp
    from search_existing[OF ok c this] c e show ?thesis by simp
  qed
  then show "fst (search P name q k w) = Inr []"
    and "\<exists>c. client (snd (search P name q k w)) name = Some c \<and> col_items c = []"
    by simp_all
qed

theorem search_creates_missing_collection_witness:
  "fst (search demo_ports (u ''research_papers'') [1, 0, 0, 0, 0] 5 empty_world) = Inr []
   \<and> fst (search demo_ports (u ''drafts'') [1, 0, 0, 0, 0] 5 demo_world) = Inr []"
proof -
  have "client empty_world (u ''research_papers'') = None"
    by (rule empty_world_client)
  with search_creates_missing_collection[of demo_ports "u ''research_papers''" "[1, 0, 0, 0, 0]" 5
         empty_world] demo_name_ok demo_nearest_nothing
  have one: "fst (search demo_ports (u ''research_papers'') [1, 0, 0, 0, 0] 5 empty_world) = Inr []"
    by simp
  from search_creates_missing_collection[of demo_ports "u ''drafts''" "[1, 0, 0, 0, 0]" 5
         demo_world] demo_drafts_ok demo_nearest_nothing demo_client_drafts
  have "fst (search demo_ports (u ''drafts'') [1, 0, 0, 0, 0] 5 demo_world) = Inr []"
    by simp
  with one show ?thesis by simp
qed

text \<open>
  The claim as stated fails: on a client that holds no collection at all, \<open>search\<close>
  returns the empty list.
\<close>

theorem search_missing_collection_counterexample:
  "client empty_world (u ''research_papers'') = None
   \<and> fst (search demo_ports (u ''research_papers'') [1, 0, 0, 0, 0] 5 empty_world) = Inr []"
  using search_missing[OF demo_name_ok empty_world_client demo_nearest_nothing]
  by (simp add: empty_world_client)

lemma engine_query_Inr:
  "engine_query P items q k = Inr r \<Longrightarrow> 0 < k \<and> r = nearest_rows P items q k"
  by (auto simp: engine_query_def split: if_splits option.splits)

text \<open>On an empty collection the engine answers with no rows, unless it refuses the query.\<close>

lemma engine_query_empty:
  "0 < k \<Longrightarrow> query_rejected P [] q k = None \<Longrightarrow>
   engine_query P [] q k = Inr \<lparr>documents = [], metadatas = [], distances = []\<rparr>"
  by (simp add: engine_query_def nearest_rows_def)

lemma nearest_rows_sorted: "sorted (distances (nearest_rows P items q k))"
proof -
  let ?d = "\<lambda>it. engine_distance P q (stored_embedding it)"
  have "sorted (map ?d (sort_key ?d items))" by (rule sorted_sort_key)
  then have "sorted (take (nat k) (map ?d (sort_key ?d items)))" by (rule sorted_wrt_take)
  then show ?thesis by (simp add: nearest_rows_def Let_def take_map)
qed

lemma demo_nearest_two:
  "engine_query demo_ports (col_items papers) [1, 0, 0, 0, 0] 2 =
     Inr \<lparr>documents = [u ''same'', u ''half''],
          metadatas = [paper_meta, paper_meta],
          distances = [0, 1 / 2]\<rparr>"
  by code_simp

lemma demo_rows_two:
  "collect (result_row \<lparr>documents = [u ''same'', u ''half''],
          metadatas = [paper_meta, paper_meta],
          distances = [0, 1 / 2]\<rparr>)
      [0..<length (documents \<lparr>documents = [u ''same'', u ''half''],
          metadatas = [paper_meta, paper_meta],
          distances = [0, 1 / 2]\<rparr>)] =
   Inr [\<lparr>s_text = u ''same'', s_metadata = paper_meta, distance = 0, similarity = 1\<rparr>,
        \<lparr>s_text = u ''half'', s_metadata = paper_meta, distance = 1 / 2, similarity = 1 / 2\<rparr>]"
  by code_simp

lemma demo_search_two:
  "search demo_ports (u ''research_papers'') [1, 0, 0, 0, 0] 2 demo_world =
     (Inr [\<lparr>s_text = u ''same'', s_metadata = paper_meta, distance = 0, similarity = 1\<rparr>,
        \<lparr>s_text = u ''half'', s_metadata = paper_meta, distance = 1 / 2, similarity = 1 / 2\<rparr>],
      demo_world)"
  by (simp only: search_existing[OF demo_name_ok demo_client_papers demo_nearest_two]
        demo_rows_two)

text \<open>
  Claim C4 (as amended). Every \<open>search\<close> that returns has at most \<open>k\<close> entries, in
  ascending distance: they are the \<open>k\<close> nearest stored entries (all of them when the
  collection holds fewer), each with its text, its metadata and its distance to the query
  vector. The similarity of each entry is 1 minus its distance, rounded to 4 decimal
  places.
\<close>

theorem search_nearest_ascending:
  assumes "search P name q k w = (Inr cs, w1)"
  shows "int (length cs) \<le> k
       \<and> sorted (map distance cs)
       \<and> (\<forall>x\<in>set cs. similarity x = py_round (f_sub 1 (distance x)) 4)
       \<and> (\<exists>c. client w1 name = Some c
              \<and> map (\<lambda>x. (s_text x, s_metadata x, distance x)) cs =
                  map (\<lambda>it. (stored_document it, stored_metadata it,
                             engine_distance P q (stored_embedding it)))
                      (take (nat k)
                         (sort_key (\<lambda>it. engine_distance P q (stored_embedding it))
                            (col_items c))))"
proof -
  from search_Inr[OF assms] obtain c r where c: "client w1 name = Some c"
    and r: "engine_query P (col_items c) q k = Inr r"
    and rows: "collect (result_row r) [0..<length (documents r)] = Inr cs"
    by blast
  from engine_query_Inr[OF r] have k: "0 < k" and r_def: "r = nearest_rows P (col_items c) q k"
    by simp_all
  let ?d = "\<lambda>it. engine_distance P q (stored_embedding it)"
  let ?hits = "take (nat k) (sort_key ?d (col_items c))"
  have docs: "documents r = map stored_document ?hits"
    and metas: "metadatas r = map stored_metadata ?hits"
    and dists: "distances r = map ?d ?hits"
    by (simp_all add: r_def nearest_rows_def Let_def)
  have len: "length cs = length ?hits"
    using rows_of_answer(1)[OF rows] docs by simp
  then have "length cs \<le> nat k" by simp
  with k have bound: "int (length cs) \<le> k" by linarith
  have "map distance cs = take (length cs) (distances r)" by (rule rows_distances[OF rows])
  with len dists have dist: "map distance cs = distances r" by simp
  with nearest_rows_sorted[of P "col_items c" q k] r_def
  have srt: "sorted (map distance cs)" by simp
  have sim: "\<forall>x\<in>set cs. similarity x = py_round (f_sub 1 (distance x)) 4"
    using rows_similarity[OF rows] by blast
  have same: "map (\<lambda>x. (s_text x, s_metadata x, distance x)) cs =
                map (\<lambda>it. (stored_document it, stored_metadata it, ?d it)) ?hits"
  proof (rule nth_equalityI)
    show "length (map (\<lambda>x. (s_text x, s_metadata x, distance x)) cs) =
            length (map (\<lambda>it. (stored_document it, stored_metadata it, ?d it)) ?hits)"
      using len by simp
  next
    fix i assume "i < length (map (\<lambda>x. (s_text x, s_metadata x, distance x)) cs)"
    then have i: "i < length cs" by simp
    with len have ih: "i < length ?hits" by simp
    from rows_of_answer(2)[OF rows i] docs metas dists ih
    show "map (\<lambda>x. (s_text x, s_metadata x, distance x)) cs ! i =
            map (\<lambda>it. (stored_document it, stored_metadata it, ?d it)) ?hits ! i"
      using i by simp
  qed
  from bound srt sim c same show ?thesis by blast
qed

theorem search_nearest_ascending_witness:
  "search demo_ports (u ''research_papers'') [1, 0, 0, 0, 0] 5 demo_world =
     (Inr papers_hits, demo_world)
   \<and> int (length papers_hits) \<le> 5
   \<and> sorted (map distance papers_hits)
   \<and> py_round (f_sub 1 (63 / 64)) 4 = 4496393867966703 / 288230376151711744
   \<and> map distance papers_hits = [0, 1 / 2, 63 / 64]
   \<and> map similarity papers_hits = [1, 1 / 2, 4496393867966703 / 288230376151711744]
   \<and> search demo_ports (u ''research_papers'') [1, 0, 0, 0, 0] 2 demo_world =
     (Inr [\<lparr>s_text = u ''same'', s_metadata = paper_meta, distance = 0, similarity = 1\<rparr>,
        \<lparr>s_text = u ''half'', s_metadata = paper_meta, distance = 1 / 2, similarity = 1 / 2\<rparr>],
      demo_world)
   \<and> int (length [\<lparr>s_text = u ''same'', s_metadata = paper_meta, distance = 0, similarity = 1\<rparr>,
        \<lparr>s_text = u ''half'', s_metadata = paper_meta, distance = 1 / 2,
           similarity = 1 / 2\<rparr>]) \<le> 2"
proof -
  have five: "search demo_ports (u ''research_papers'') [1, 0, 0, 0, 0] 5 demo_world =
     (Inr papers_hits, demo_world)"
    using demo_search_papers by (simp only: papers_hits_def)
  note a = search_nearest_ascending[OF five]
  note b = search_nearest_ascending[OF demo_search_two]
  have vals: "map distance papers_hits = [0, 1 / 2, 63 / 64]"
    "map similarity papers_hits = [1, 1 / 2, 4496393867966703 / 288230376151711744]"
    by (simp_all add: papers_hits_def)
  from a have a1: "int (length papers_hits) \<le> 5" and a2: "sorted (map distance papers_hits)"
    and a3: "\<forall>x\<in>set papers_hits. similarity x = py_round (f_sub 1 (distance x)) 4"
    by blast+
  from b have b1: "int (length [\<lparr>s_text = u ''same'', s_metadata = paper_meta, distance = 0, similarity = 1\<rparr>,
        \<lparr>s_text = u ''half'', s_metadata = paper_meta, distance = 1 / 2,
           similarity = 1 / 2\<rparr>]) \<le> 2"
    by blast
  from a3 have a4: "py_round (f_sub 1 (63 / 64)) 4 = 4496393867966703 / 288230376151711744"
    by (simp add: papers_hits_def)
  from five a1 a2 a4 vals demo_search_two b1 show ?thesis by (intro conjI)
qed


text \<open>
  The claim as stated fails: the third entry below has distance \<open>63/64\<close> and, as its
  similarity, the double \<open>0.0156\<close>, not \<open>1/64 = 0.015625\<close>.
\<close>

theorem search_similarity_counterexample:
  "fst (search demo_ports (u ''research_papers'') [1, 0, 0, 0, 0] 5 demo_world) =
     Inr [\<lparr>s_text = u ''same'', s_metadata = paper_meta, distance = 0, similarity = 1\<rparr>,
        \<lparr>s_text = u ''half'', s_metadata = paper_meta, distance = 1 / 2, similarity = 1 / 2\<rparr>,
        \<lparr>s_text = u ''fine'', s_metadata = paper_meta, distance = 63 / 64,
           similarity = 4496393867966703 / 288230376151711744\<rparr>]
   \<and> (4496393867966703 / 288230376151711744 :: rat) \<noteq> 1 - 63 / 64"
  by (simp add: demo_search_papers)

section \<open>The retriever\<close>

lemma search_Inr_again:
  assumes "search P name q k w = (Inr cs, w1)" and "client w2 = client w1"
  shows "search P name q k w2 = (Inr cs, w2)"
proof -
  from search_Inr[OF assms(1)] obtain c r where cc: "create_collection P name w = (Inr name, w1)"
    and c: "client w1 name = Some c" and r: "engine_query P (col_items c) q k = Inr r"
    and rows: "collect (result_row r) [0..<length (documents r)] = Inr cs"
    by blast
  from create_collection_Inr(2)[OF cc] have ok: "name_rejected P name = None" .
  from c assms(2) have c2: "client w2 name = Some c" by simp
  from search_existing[OF ok c2 r] rows show ?thesis by simp
qed

lemma search_Inr_logs:
  assumes "search P name q k w = (Inr cs, w1)"
  shows "embedded w1 = embedded w" and "llm_calls w1 = llm_calls w"
proof -
  from search_Inr[OF assms] have cc: "create_collection P name w = (Inr name, w1)" by blast
  from create_collection_Inr(4,5)[OF cc] show "embedded w1 = embedded w" and "llm_calls w1 = llm_calls w"
    by simp_all
qed

lemma retrieve_Inr:
  assumes "retrieve P r q w = (Inr cs, w1)"
  shows "strip q \<noteq> []"
    and "\<exists>v. search P (collection_name r) v (n_results r) (w\<lparr>embedded := embedded w @ [q]\<rparr>)
               = (Inr cs, w1) \<and> fst (embed_single P q w) = Inr v"
  using assms
  by (auto simp: retrieve_def embed_single_def split: if_splits list.splits)

lemma retrieve_logs:
  assumes "retrieve P r q w = (Inr cs, w1)"
  shows "embedded w1 = embedded w @ [q]" and "llm_calls w1 = llm_calls w"
proof -
  from retrieve_Inr(2)[OF assms] obtain v where
    s: "search P (collection_name r) v (n_results r) (w\<lparr>embedded := embedded w @ [q]\<rparr>) = (Inr cs, w1)"
    by blast
  from search_Inr_logs[OF s] show "embedded w1 = embedded w @ [q]" and "llm_calls w1 = llm_calls w"
    by simp_all
qed

lemma retrieve_again:
  assumes "retrieve P r q w = (Inr cs, w1)"
  shows "retrieve P r q w1 = (Inr cs, w1\<lparr>embedded := embedded w1 @ [q]\<rparr>)"
proof -
  from retrieve_Inr[OF assms] obtain v where q: "strip q \<noteq> []"
    and s: "search P (collection_name r) v (n_results r) (w\<lparr>embedded := embedded w @ [q]\<rparr>) = (Inr cs, w1)"
    and v: "fst (embed_single P q w) = Inr v"
    by blast
  from q have q0: "q \<noteq> []" by (auto simp: strip_def)
  from v have v1: "embed_single P q w1 = (Inr v, w1\<lparr>embedded := embedded w1 @ [q]\<rparr>)"
    by (auto simp: embed_single_def split: list.splits)
  have "search P (collection_name r) v (n_results r) (w1\<lparr>embedded := embedded w1 @ [q]\<rparr>)
          = (Inr cs, w1\<lparr>embedded := embedded w1 @ [q]\<rparr>)"
    by (rule search_Inr_again[OF s]) simp
  with q q0 v1 show ?thesis by (simp add: retrieve_def)
qed

lemma retrieve_with_scores_Inr:
  assumes "retrieve_with_scores P r q w = (Inr (cs, avg), w1)"
  shows "retrieve P r q w = (Inr cs, w1)"
    and "avg = (if cs = [] then 0
                else py_round (f_div (py_sum P (map similarity cs)) (of_nat (length cs))) 4)"
  using assms
  by (auto simp: retrieve_with_scores_def Let_def split: prod.splits sum.splits if_splits)

lemma retrieve_with_scores_of_retrieve:
  assumes "retrieve P r q w = (Inr cs, w1)"
  shows "retrieve_with_scores P r q w =
           (Inr (cs, if cs = [] then 0
                     else py_round (f_div (py_sum P (map similarity cs)) (of_nat (length cs))) 4), w1)"
  using assms by (simp add: retrieve_with_scores_def Let_def)

lemma demo_cooking_ok: "name_rejected demo_ports (u ''cooking'') = None"
  by (simp add: demo_ports_def u_def)

lemma demo_client_cooking: "client demo_world (u ''cooking'') = Some cooking"
  by (simp add: demo_world_def u_def)

lemma demo_nearest_cooking:
  "engine_query demo_ports (col_items cooking) [1, 0, 0, 0, 0] 5 =
     Inr \<lparr>documents = [u ''half'', u ''salt'', u ''sugar''],
          metadatas = [paper_meta, paper_meta, paper_meta],
          distances = [1 / 2, 1, 1]\<rparr>"
  by code_simp

lemma demo_rows_cooking:
  "collect (result_row \<lparr>documents = [u ''half'', u ''salt'', u ''sugar''],
          metadatas = [paper_meta, paper_meta, paper_meta],
          distances = [1 / 2, 1, 1]\<rparr>)
      [0..<length (documents \<lparr>documents = [u ''half'', u ''salt'', u ''sugar''],
          metadatas = [paper_meta, paper_meta, paper_meta],
          distances = [1 / 2, 1, 1]\<rparr>)] = Inr cake"
  by code_simp

lemma demo_strip_cake: "strip (u ''cake?'') \<noteq> [] \<and> u ''cake?'' \<noteq> []"
  by (simp add: strip_def isspace_def u_def)

lemma demo_encode: "model_encode demo_ports [t] = [[1, 0, 0, 0, 0]]"
  by (simp add: demo_ports_def)

lemma demo_retrieve_cooking:
  "retrieve demo_ports cooking_retriever (u ''cake?'') demo_world =
     (Inr cake, demo_world\<lparr>embedded := [u ''cake?'']\<rparr>)"
proof -
  have c: "client (demo_world\<lparr>embedded := [u ''cake?'']\<rparr>) (u ''cooking'') = Some cooking"
    using demo_client_cooking by simp
  have e: "embedded demo_world = []" by (simp add: demo_world_def)
  from search_existing[OF demo_cooking_ok c demo_nearest_cooking] demo_rows_cooking
  have "search demo_ports (u ''cooking'') [1, 0, 0, 0, 0] 5 (demo_world\<lparr>embedded := [u ''cake?'']\<rparr>)
          = (Inr cake, demo_world\<lparr>embedded := [u ''cake?'']\<rparr>)"
    by (simp only:)
  with demo_strip_cake e show ?thesis
    by (simp add: retrieve_def embed_single_def demo_encode cooking_retriever_def)
qed

lemma cake_average:
  "(if cake = [] then 0
    else py_round (f_div (py_sum demo_ports (map similarity cake)) (of_nat (length cake))) 4) = 6006000463061293 / 36028797018963968"
  by code_simp

lemma demo_retrieve_drafts:
  "retrieve demo_ports drafts_retriever (u ''cake?'') demo_world =
     (Inr [], demo_world\<lparr>embedded := [u ''cake?'']\<rparr>)"
proof -
  have c: "client (demo_world\<lparr>embedded := [u ''cake?'']\<rparr>) (u ''drafts'')
             = Some \<lparr>col_metadata = [], col_items = []\<rparr>"
    using demo_client_drafts by simp
  have e: "embedded demo_world = []" by (simp add: demo_world_def)
  from search_existing[OF demo_drafts_ok c demo_nearest_drafts]
  have "search demo_ports (u ''drafts'') [1, 0, 0, 0, 0] 5 (demo_world\<lparr>embedded := [u ''cake?'']\<rparr>)
          = (Inr [], demo_world\<lparr>embedded := [u ''cake?'']\<rparr>)"
    by simp
  with demo_strip_cake e show ?thesis
    by (simp add: retrieve_def embed_single_def demo_encode drafts_retriever_def)
qed

lemma demo_ties_ok: "name_rejected demo_ports (u ''ties'') = None"
  by (simp add: demo_ports_def u_def)

lemma demo_client_ties: "client demo_world (u ''ties'') = Some ties"
  by (simp add: demo_world_def u_def)

lemma demo_nearest_ties:
  "engine_query demo_ports (col_items ties) [1, 0, 0, 0, 0] 2 =
     Inr \<lparr>documents = [u ''near'', u ''far''],
          metadatas = [paper_meta, paper_meta],
          distances = [5003 / 10000, 9998 / 10000]\<rparr>"
  by code_simp

lemma demo_rows_ties:
  "collect (result_row \<lparr>documents = [u ''near'', u ''far''],
          metadatas = [paper_meta, paper_meta],
          distances = [5003 / 10000, 9998 / 10000]\<rparr>)
      [0..<length (documents \<lparr>documents = [u ''near'', u ''far''],
          metadatas = [paper_meta, paper_meta],
          distances = [5003 / 10000, 9998 / 10000]\<rparr>)] = Inr tie_hits"
  by code_simp

lemma demo_retrieve_ties:
  "retrieve demo_ports ties_retriever (u ''cake?'') demo_world =
     (Inr tie_hits, demo_world\<lparr>embedded := [u ''cake?'']\<rparr>)"
proof -
  have c: "client (demo_world\<lparr>embedded := [u ''cake?'']\<rparr>) (u ''ties'') = Some ties"
    using demo_client_ties by simp
  have e: "embedded demo_world = []" by (simp add: demo_world_def)
  from search_existing[OF demo_ties_ok c demo_nearest_ties] demo_rows_ties
  have "search demo_ports (u ''ties'') [1, 0, 0, 0, 0] 2 (demo_world\<lparr>embedded := [u ''cake?'']\<rparr>)
          = (Inr tie_hits, demo_world\<lparr>embedded := [u ''cake?'']\<rparr>)"
    by (simp only:)
  with demo_strip_cake e show ?thesis
    by (simp add: retrieve_def embed_single_def demo_encode ties_retriever_def)
qed

lemma ties_average:
  "(if tie_hits = [] then 0
    else py_round (f_div (py_sum demo_ports (map similarity tie_hits))
            (of_nat (length tie_hits))) 4) = 1125449546879887 / 4503599627370496"
  by code_simp

text \<open>
  The two similarities are the doubles 0.4997 and 0.0002 and their average is the double
  0.2499; the mean of the decimals themselves, 0.24995, would round to 0.25.
\<close>

lemma ties_values:
  "map similarity tie_hits = [to_double (4997 / 10000), to_double (2 / 10000)]
   \<and> 1125449546879887 / 4503599627370496 = to_double (2499 / 10000)
   \<and> (4997 / 10000 + 2 / 10000) / 2 = (24995 / 100000 :: rat)"
  by code_simp

text \<open>
  Claim C5 (as amended). When retrieval returns no chunk the average similarity is exactly
  0. Otherwise it is \<open>round(sum(similarities) / len, 4)\<close> in float arithmetic: the float
  quotient of the float sum of the similarities (\<open>py_sum\<close>) by their number, rounded to
  4 decimal places; this is in general not the mean of the similarities. \<open>is_relevant\<close> holds exactly
  when this average is at least the threshold, so it is false whenever the average is 0
  and the threshold is positive.
\<close>

theorem average_similarity_is_rounded_mean:
  assumes "retrieve P r q w = (Inr cs, w1)"
  shows "retrieve_with_scores P r q w =
           (Inr (cs, if cs = [] then 0
                     else py_round (f_div (py_sum P (map similarity cs)) (of_nat (length cs))) 4), w1)
       \<and> (\<exists>avg. retrieve_with_scores P r q w = (Inr (cs, avg), w1)
              \<and> is_relevant P r q threshold w = (Inr (threshold \<le> avg), w1)
              \<and> (avg = 0 \<and> 0 < threshold \<longrightarrow> is_relevant P r q threshold w = (Inr False, w1)))"
proof -
  let ?avg = "if cs = [] then 0
              else py_round (f_div (py_sum P (map similarity cs)) (of_nat (length cs))) 4"
  have rws: "retrieve_with_scores P r q w = (Inr (cs, ?avg), w1)"
    by (rule retrieve_with_scores_of_retrieve[OF assms])
  then have rel: "is_relevant P r q threshold w = (Inr (threshold \<le> ?avg), w1)"
    by (simp add: is_relevant_def)
  then have "?avg = 0 \<and> 0 < threshold \<longrightarrow> is_relevant P r q threshold w = (Inr False, w1)"
    by auto
  with rws rel show ?thesis by blast
qed

theorem average_similarity_is_rounded_mean_witness:
  "retrieve_with_scores demo_ports cooking_retriever (u ''cake?'') demo_world =
     (Inr (cake, 6006000463061293 / 36028797018963968), demo_world\<lparr>embedded := [u ''cake?'']\<rparr>)
   \<and> is_relevant demo_ports cooking_retriever (u ''cake?'') (3 / 10) demo_world =
     (Inr False, demo_world\<lparr>embedded := [u ''cake?'']\<rparr>)
   \<and> retrieve_with_scores demo_ports drafts_retriever (u ''cake?'') demo_world =
     (Inr ([], 0), demo_world\<lparr>embedded := [u ''cake?'']\<rparr>)
   \<and> is_relevant demo_ports drafts_retriever (u ''cake?'') (1 / 10000) demo_world =
     (Inr False, demo_world\<lparr>embedded := [u ''cake?'']\<rparr>)
   \<and> retrieve_with_scores demo_ports ties_retriever (u ''cake?'') demo_world =
     (Inr (tie_hits, 1125449546879887 / 4503599627370496),
      demo_world\<lparr>embedded := [u ''cake?'']\<rparr>)"
proof -
  from average_similarity_is_rounded_mean[OF demo_retrieve_cooking, of "3 / 10"]
  have one: "retrieve_with_scores demo_ports cooking_retriever (u ''cake?'') demo_world =
     (Inr (cake, 6006000463061293 / 36028797018963968), demo_world\<lparr>embedded := [u ''cake?'']\<rparr>)
   \<and> is_relevant demo_ports cooking_retriever (u ''cake?'') (3 / 10) demo_world =
     (Inr False, demo_world\<lparr>embedded := [u ''cake?'']\<rparr>)"
    by (auto simp: cake_average)
  from average_similarity_is_rounded_mean[OF demo_retrieve_drafts, of "1 / 10000"]
  have two: "retrieve_with_scores demo_ports drafts_retriever (u ''cake?'') demo_world =
     (Inr ([], 0), demo_world\<lparr>embedded := [u ''cake?'']\<rparr>)
   \<and> is_relevant demo_ports drafts_retriever (u ''cake?'') (1 / 10000) demo_world =
     (Inr False, demo_world\<lparr>embedded := [u ''cake?'']\<rparr>)"
    by auto
  from average_similarity_is_rounded_mean[OF demo_retrieve_ties, of 0]
  have three: "retrieve_with_scores demo_ports ties_retriever (u ''cake?'') demo_world =
     (Inr (tie_hits, 1125449546879887 / 4503599627370496),
      demo_world\<lparr>embedded := [u ''cake?'']\<rparr>)"
    by (simp only: ties_average)
  from one two three show ?thesis by blast
qed

text \<open>
  The claim as stated fails: for similarities \<open>0.5, 0, 0\<close> the average returned is
  the double \<open>0.1667\<close>, not the mean \<open>1/6\<close>.
\<close>

theorem average_similarity_counterexample:
  "fst (retrieve_with_scores demo_ports cooking_retriever (u ''cake?'') demo_world) =
     Inr ([\<lparr>s_text = u ''half'', s_metadata = paper_meta, distance = 1 / 2, similarity = 1 / 2\<rparr>,
        \<lparr>s_text = u ''salt'', s_metadata = paper_meta, distance = 1, similarity = 0\<rparr>,
        \<lparr>s_text = u ''sugar'', s_metadata = paper_meta, distance = 1, similarity = 0\<rparr>],
       6006000463061293 / 36028797018963968)
   \<and> (6006000463061293 / 36028797018963968 :: rat) \<noteq> (1 / 2 + 0 + 0) / 3"
  using retrieve_with_scores_of_retrieve[OF demo_retrieve_cooking]
  by (simp add: cake_average) (simp add: cake_def)

section \<open>Answering a question\<close>

lemma retrieve_as_context_again:
  assumes "retrieve P r q w = (Inr cs, w1)"
  shows "retrieve_as_context P r q w1 =
           (Inr (if cs = [] then u ''No relevant context found.''
                 else join (nl @ nl @ u ''---'' @ nl @ nl)
                        (map (context_part P) (enumerate 0 cs))),
            w1\<lparr>embedded := embedded w1 @ [q]\<rparr>)"
  using retrieve_again[OF assms] by (simp add: retrieve_as_context_def)

lemma demo_retrieve_papers:
  "retrieve demo_ports papers_retriever (u ''cake?'') demo_world =
     (Inr papers_hits, demo_world\<lparr>embedded := [u ''cake?'']\<rparr>)"
proof -
  have c: "client (demo_world\<lparr>embedded := [u ''cake?'']\<rparr>) (u ''research_papers'') = Some papers"
    using demo_client_papers by simp
  have e: "embedded demo_world = []" by (simp add: demo_world_def)
  from search_existing[OF demo_name_ok c demo_nearest_papers] demo_rows_papers
  have "search demo_ports (u ''research_papers'') [1, 0, 0, 0, 0] 5
          (demo_world\<lparr>embedded := [u ''cake?'']\<rparr>)
          = (Inr papers_hits, demo_world\<lparr>embedded := [u ''cake?'']\<rparr>)"
    by (simp only: papers_hits_def)
  with demo_strip_cake e show ?thesis
    by (simp add: retrieve_def embed_single_def demo_encode papers_retriever_def)
qed

lemma papers_average:
  "(if papers_hits = [] then 0
    else py_round (f_div (py_sum demo_ports (map similarity papers_hits))
            (of_nat (length papers_hits))) 4)
   = 4550437063495149 / 9007199254740992"
  by code_simp

lemma demo_scores_cooking:
  "retrieve_with_scores demo_ports cooking_retriever (u ''cake?'') demo_world =
     (Inr (cake, 6006000463061293 / 36028797018963968), demo_world\<lparr>embedded := [u ''cake?'']\<rparr>)"
  using retrieve_with_scores_of_retrieve[OF demo_retrieve_cooking] by (simp only: cake_average)

lemma demo_scores_papers:
  "retrieve_with_scores demo_ports papers_retriever (u ''cake?'') demo_world =
     (Inr (papers_hits, 4550437063495149 / 9007199254740992), demo_world\<lparr>embedded := [u ''cake?'']\<rparr>)"
  using retrieve_with_scores_of_retrieve[OF demo_retrieve_papers] by (simp only: papers_average)

text \<open>
  Claim C1. Let retrieval for a question yield the chunks \<open>cs\<close> and the average
  similarity \<open>avg\<close>. If \<open>avg < 0.25\<close>, \<open>answer_question\<close> returns the fixed
  "no relevant information" answer with an empty \<open>context_used\<close>, and the language model
  has not been called. If \<open>avg \<ge> 0.25\<close>, it builds the prompt from the formatted context
  and the question and sends it to the language model: exactly one call is added, and the
  result is the model's reply with the chunks and the average (or the model's failure).
\<close>

theorem answer_question_gate:
  assumes "retrieve_with_scores P r question w = (Inr (cs, avg), w1)"
  shows "(avg < 1 / 4 \<longrightarrow>
            answer_question P r question w =
              (Inr \<lparr>answer = no_information, context_used = [], avg_relevance = avg\<rparr>, w1)
            \<and> llm_calls w1 = llm_calls w)
       \<and> (1 / 4 \<le> avg \<longrightarrow>
            fst (answer_question P r question w) =
              (case llm_reply P
                      [SystemMessage qa_system,
                       HumanMessage (qa_human (join (nl @ nl @ u ''---'' @ nl @ nl)
                          (map (context_part P) (enumerate 0 cs))) question)] of
                 Inl m \<Rightarrow> Inl (GenerationError m)
               | Inr content \<Rightarrow>
                   Inr \<lparr>answer = content, context_used = cs, avg_relevance = avg\<rparr>)
            \<and> llm_calls (snd (answer_question P r question w)) =
                llm_calls w @
                  [[SystemMessage qa_system,
                    HumanMessage (qa_human (join (nl @ nl @ u ''---'' @ nl @ nl)
                       (map (context_part P) (enumerate 0 cs))) question)]])"
proof -
  from retrieve_with_scores_Inr[OF assms] have ret: "retrieve P r question w = (Inr cs, w1)"
    and avg: "avg = (if cs = [] then 0
                else py_round (f_div (py_sum P (map similarity cs)) (of_nat (length cs))) 4)"
    by simp_all
  from retrieve_Inr(1)[OF ret] have q: "strip question \<noteq> []" .
  from retrieve_logs(2)[OF ret] have calls: "llm_calls w1 = llm_calls w" .
  have low: "avg < 1 / 4 \<longrightarrow>
            answer_question P r question w =
              (Inr \<lparr>answer = no_information, context_used = [], avg_relevance = avg\<rparr>, w1)
            \<and> llm_calls w1 = llm_calls w"
    using q assms calls by (simp add: answer_question_def)
  have high: "1 / 4 \<le> avg \<longrightarrow>
            fst (answer_question P r question w) =
              (case llm_reply P
                      [SystemMessage qa_system,
                       HumanMessage (qa_human (join (nl @ nl @ u ''---'' @ nl @ nl)
                          (map (context_part P) (enumerate 0 cs))) question)] of
                 Inl m \<Rightarrow> Inl (GenerationError m)
               | Inr content \<Rightarrow>
                   Inr \<lparr>answer = content, context_used = cs, avg_relevance = avg\<rparr>)
            \<and> llm_calls (snd (answer_question P r question w)) =
                llm_calls w @
                  [[SystemMessage qa_system,
                    HumanMessage (qa_human (join (nl @ nl @ u ''---'' @ nl @ nl)
                       (map (context_part P) (enumerate 0 cs))) question)]]"
  proof
    assume h: "1 / 4 \<le> avg"
    with avg have ne: "cs \<noteq> []" by (auto split: if_splits)
    from h have notlow: "\<not> avg < 1 / 4" by simp
    from retrieve_as_context_again[OF ret] ne
    have ctx: "retrieve_as_context P r question w1 =
           (Inr (join (nl @ nl @ u ''---'' @ nl @ nl) (map (context_part P) (enumerate 0 cs))),
            w1\<lparr>embedded := embedded w1 @ [question]\<rparr>)"
      by simp
    show "fst (answer_question P r question w) =
              (case llm_reply P
                      [SystemMessage qa_system,
                       HumanMessage (qa_human (join (nl @ nl @ u ''---'' @ nl @ nl)
                          (map (context_part P) (enumerate 0 cs))) question)] of
                 Inl m \<Rightarrow> Inl (GenerationError m)
               | Inr content \<Rightarrow>
                   Inr \<lparr>answer = content, context_used = cs, avg_relevance = avg\<rparr>)
            \<and> llm_calls (snd (answer_question P r question w)) =
                llm_calls w @
                  [[SystemMessage qa_system,
                    HumanMessage (qa_human (join (nl @ nl @ u ''---'' @ nl @ nl)
                       (map (context_part P) (enumerate 0 cs))) question)]]"
      using q assms notlow ctx calls
      by (simp add: answer_question_def invoke_def split: sum.splits)
  qed
  from low high show ?thesis by blast
qed

theorem answer_question_gate_witness:
  "answer_question demo_ports cooking_retriever (u ''cake?'') demo_world =
     (Inr \<lparr>answer = no_information, context_used = [], avg_relevance = 6006000463061293 / 36028797018963968\<rparr>,
      demo_world\<lparr>embedded := [u ''cake?'']\<rparr>)
   \<and> llm_calls (demo_world\<lparr>embedded := [u ''cake?'']\<rparr>) = []
   \<and> fst (answer_question demo_ports papers_retriever (u ''cake?'') demo_world) =
       Inr \<lparr>answer = u ''ok'', context_used = papers_hits, avg_relevance = 4550437063495149 / 9007199254740992\<rparr>
   \<and> llm_calls (snd (answer_question demo_ports papers_retriever (u ''cake?'') demo_world)) =
       [[SystemMessage qa_system,
         HumanMessage (qa_human (join (nl @ nl @ u ''---'' @ nl @ nl)
            (map (context_part demo_ports) (enumerate 0 papers_hits))) (u ''cake?''))]]"
proof -
  have e: "llm_calls demo_world = []" by (simp add: demo_world_def)
  have reply: "llm_reply demo_ports msgs = Inr (u ''ok'')" for msgs
    by (simp add: demo_ports_def)
  from answer_question_gate[OF demo_scores_cooking] e
  have low: "answer_question demo_ports cooking_retriever (u ''cake?'') demo_world =
     (Inr \<lparr>answer = no_information, context_used = [], avg_relevance = 6006000463061293 / 36028797018963968\<rparr>,
      demo_world\<lparr>embedded := [u ''cake?'']\<rparr>)
   \<and> llm_calls (demo_world\<lparr>embedded := [u ''cake?'']\<rparr>) = []"
    by simp
  from answer_question_gate[OF demo_scores_papers] e
  have "fst (answer_question demo_ports papers_retriever (u ''cake?'') demo_world) =
       Inr \<lparr>answer = u ''ok'', context_used = papers_hits, avg_relevance = 4550437063495149 / 9007199254740992\<rparr>
   \<and> llm_calls (snd (answer_question demo_ports papers_retriever (u ''cake?'') demo_world)) =
       [[SystemMessage qa_system,
         HumanMessage (qa_human (join (nl @ nl @ u ''---'' @ nl @ nl)
            (map (context_part demo_ports) (enumerate 0 papers_hits))) (u ''cake?''))]]"
    by (simp add: reply)
  with low show ?thesis by simp
qed

section \<open>Translating\<close>

lemma dropWhile_all_iff: "(\<forall>x\<in>set (dropWhile Q xs). Q x) \<longleftrightarrow> (\<forall>x\<in>set xs. Q x)"
  by (induction xs) auto

lemma strip_empty_iff: "strip s = [] \<longleftrightarrow> (\<forall>c\<in>set s. isspace c)"
proof -
  have "strip s = [] \<longleftrightarrow> dropWhile isspace (rev (dropWhile isspace s)) = []"
    by (simp add: strip_def)
  also have "\<dots> \<longleftrightarrow> (\<forall>c\<in>set (dropWhile isspace s). isspace c)"
    by (simp add: dropWhile_eq_Nil_conv)
  also have "\<dots> \<longleftrightarrow> (\<forall>c\<in>set s. isspace c)"
    by (rule dropWhile_all_iff)
  finally show ?thesis .
qed

lemma klingon_unsupported: "u ''Klingon'' \<notin> set SUPPORTED_LANGUAGES"
  by (simp add: SUPPORTED_LANGUAGES_def u_def)

lemma french_supported: "u ''French'' \<in> set SUPPORTED_LANGUAGES"
  by (simp add: SUPPORTED_LANGUAGES_def)

text \<open>
  Claim C6. \<open>translate\<close> fails with the "cannot be empty" error for every text that is
  empty or consists of whitespace only, whatever the language and \<open>use_context\<close>, and
  leaves the state as it is. For every other text it fails with the "not supported" error
  when the target language is not in \<open>SUPPORTED_LANGUAGES\<close>; so a language outside
  the list always fails. Both errors are a \<open>ValueError\<close>, told apart by their message.
\<close>

theorem translate_rejects_bad_input:
  "((\<forall>c\<in>set txt. isspace c) \<longrightarrow>
      translate P r txt language use_context w =
        (Inl (ValueError (u ''Text to translate cannot be empty'')), w))
   \<and> (\<not> (\<forall>c\<in>set txt. isspace c) \<and> language \<notin> set SUPPORTED_LANGUAGES \<longrightarrow>
      translate P r txt language use_context w =
        (Inl (ValueError (u ''Language not supported. Choose from: ''
                           @ join (u '', '') SUPPORTED_LANGUAGES)), w))
   \<and> (language \<notin> set SUPPORTED_LANGUAGES \<longrightarrow>
      (\<exists>m. translate P r txt language use_context w = (Inl (ValueError m), w)))"
  using strip_empty_iff[of "txt"] by (auto simp: translate_def)

theorem translate_rejects_bad_input_witness:
  "translate demo_ports papers_retriever (u '''') (u ''French'') True demo_world =
     (Inl (ValueError (u ''Text to translate cannot be empty'')), demo_world)
   \<and> translate demo_ports papers_retriever [32, 10, 9] (u ''Klingon'') True demo_world =
     (Inl (ValueError (u ''Text to translate cannot be empty'')), demo_world)
   \<and> translate demo_ports papers_retriever (u ''text'') (u ''Klingon'') True demo_world =
     (Inl (ValueError (u ''Language not supported. Choose from: ''
                        @ join (u '', '') SUPPORTED_LANGUAGES)), demo_world)"
proof -
  have a: "\<forall>c\<in>set (u ''''). isspace c" by (simp add: u_def)
  have b: "\<forall>c\<in>set [32, 10, 9]. isspace c" by (simp add: isspace_def)
  have c: "\<not> (\<forall>c\<in>set (u ''text''). isspace c)" by (simp add: u_def isspace_def)
  from translate_rejects_bad_input[of "u ''''" demo_ports papers_retriever "u ''French''" True demo_world] a
  have one: "translate demo_ports papers_retriever (u '''') (u ''French'') True demo_world =
     (Inl (ValueError (u ''Text to translate cannot be empty'')), demo_world)" by blast
  from translate_rejects_bad_input[of "[32, 10, 9]" demo_ports papers_retriever "u ''Klingon''" True demo_world] b
  have two: "translate demo_ports papers_retriever [32, 10, 9] (u ''Klingon'') True demo_world =
     (Inl (ValueError (u ''Text to translate cannot be empty'')), demo_world)" by blast
  from translate_rejects_bad_input[of "u ''text''" demo_ports papers_retriever "u ''Klingon''" True demo_world]
    c klingon_unsupported
  have "translate demo_ports papers_retriever (u ''text'') (u ''Klingon'') True demo_world =
     (Inl (ValueError (u ''Language not supported. Choose from: ''
                        @ join (u '', '') SUPPORTED_LANGUAGES)), demo_world)" by blast
  with one two show ?thesis by simp
qed

lemma join_nonempty: "x \<noteq> [] \<Longrightarrow> join sep (x # ys) \<noteq> []"
  by (cases ys) simp_all

lemma reference_part_nonempty: "reference_part ic \<noteq> []"
  by (cases ic) (simp add: reference_part_def u_def)

lemma references_nonempty:
  "cs \<noteq> [] \<Longrightarrow> join sep (map reference_part (enumerate 0 (take 2 cs))) \<noteq> []"
  by (cases cs) (simp_all add: join_nonempty reference_part_nonempty)

lemma retrieve_with_scores_logs:
  assumes "retrieve_with_scores P r q w = (Inr (cs, avg), w1)"
  shows "embedded w1 = embedded w @ [q]" and "llm_calls w1 = llm_calls w"
  using retrieve_logs[OF retrieve_with_scores_Inr(1)[OF assms]] by simp_all

lemma demo_retrieve_existing:
  assumes "strip q \<noteq> []" and "name_rejected demo_ports (collection_name r) = None"
    and "client demo_world (collection_name r) = Some c"
    and "engine_query demo_ports (col_items c) [1, 0, 0, 0, 0] (n_results r) = Inr a"
  shows "retrieve demo_ports r q demo_world =
           (collect (result_row a) [0..<length (documents a)], demo_world\<lparr>embedded := [q]\<rparr>)"
proof -
  from assms(1) have q0: "q \<noteq> []" by (auto simp: strip_def)
  have c: "client (demo_world\<lparr>embedded := [q]\<rparr>) (collection_name r) = Some c"
    using assms(3) by simp
  have e: "embedded demo_world = []" by (simp add: demo_world_def)
  from search_existing[OF assms(2) c assms(4)] assms(1) q0 e show ?thesis
    by (simp add: retrieve_def embed_single_def demo_encode)
qed

lemma long_text_prefix: "take 200 long_text = replicate 200 97"
  by (simp add: long_text_def)

lemma long_prefix_not_blank: "strip (replicate 200 97) \<noteq> []"
  by (simp add: strip_empty_iff isspace_def)

lemma long_text_not_blank: "strip long_text \<noteq> []"
  by (simp add: strip_empty_iff isspace_def long_text_def)

lemma demo_scores_papers_long:
  "retrieve_with_scores demo_ports papers_retriever (replicate 200 97) demo_world =
     (Inr (papers_hits, 4550437063495149 / 9007199254740992), demo_world\<lparr>embedded := [replicate 200 97]\<rparr>)"
proof -
  have "retrieve demo_ports papers_retriever (replicate 200 97) demo_world =
          (Inr papers_hits, demo_world\<lparr>embedded := [replicate 200 97]\<rparr>)"
    using demo_retrieve_existing[OF long_prefix_not_blank, of papers_retriever papers]
      demo_name_ok demo_client_papers demo_nearest_papers demo_rows_papers
    by (simp add: papers_retriever_def papers_hits_def)
  from retrieve_with_scores_of_retrieve[OF this] show ?thesis by (simp only: papers_average)
qed

lemma demo_scores_drafts_long:
  "retrieve_with_scores demo_ports drafts_retriever (replicate 200 97) demo_world =
     (Inr ([], 0), demo_world\<lparr>embedded := [replicate 200 97]\<rparr>)"
proof -
  have "retrieve demo_ports drafts_retriever (replicate 200 97) demo_world =
          (Inr [], demo_world\<lparr>embedded := [replicate 200 97]\<rparr>)"
    using demo_retrieve_existing[OF long_prefix_not_blank, of drafts_retriever
            "\<lparr>col_metadata = [], col_items = []\<rparr>"]
      demo_drafts_ok demo_client_drafts demo_nearest_drafts
    by (simp add: drafts_retriever_def)
  from retrieve_with_scores_of_retrieve[OF this] show ?thesis by simp
qed

lemma padded_text_prefix: "take 200 padded_text = replicate 200 32"
  by (simp add: padded_text_def)

lemma padded_text_not_blank: "strip padded_text \<noteq> []"
  by (simp add: strip_empty_iff isspace_def padded_text_def u_def)

lemma padded_prefix_blank: "strip (replicate 200 32) = []"
  by (simp add: strip_empty_iff isspace_def)

lemma demo_scores_padded:
  "retrieve_with_scores demo_ports papers_retriever (replicate 200 32) demo_world =
     (Inl (ValueError (u ''Query cannot be empty'')), demo_world)"
  by (simp add: retrieve_with_scores_def retrieve_def padded_prefix_blank)

lemma reference_part_numbered:
  "reference_part (0, c) = u ''[Reference 1]: '' @ s_text c"
  "reference_part (Suc 0, c) = u ''[Reference 2]: '' @ s_text c"
  by (simp_all add: reference_part_def u_def str_of_nat.simps)

lemma references_first_two:
  "join (nl @ nl) (map reference_part (enumerate 0 (take 2 [a]))) = u ''[Reference 1]: '' @ s_text a"
  "join (nl @ nl) (map reference_part (enumerate 0 (take 2 (a # b # rest)))) =
     u ''[Reference 1]: '' @ s_text a @ nl @ nl @ u ''[Reference 2]: '' @ s_text b"
  by (simp_all add: reference_part_numbered numeral_2_eq_2)

text \<open>
  Claim C7. Let \<open>translate\<close> be called with \<open>use_context\<close> true on a text that is not
  blank and a supported language. Retrieval is run on the first 200 characters of the
  text: if it fails, \<open>translate\<close> fails with its error; if it returns the chunks
  \<open>cs\<close>, the only text sent to the embedding model is that prefix, and the language
  model receives exactly one prompt. With no chunk the prompt is the plain request and
  has no reference section; with one chunk it cites that chunk as Reference 1; with two
  or more it cites the first two as Reference 1 and Reference 2 and no other.
\<close>

theorem translate_prompt_from_prefix:
  assumes "strip txt \<noteq> []" and "language \<in> set SUPPORTED_LANGUAGES"
  shows "(retrieve_with_scores P r (take 200 txt) w = (Inl e, w') \<longrightarrow>
            translate P r txt language True w = (Inl e, w'))
       \<and> (retrieve_with_scores P r (take 200 txt) w = (Inr (cs, avg), w') \<longrightarrow>
            (let msgs =
               [SystemMessage
                  (u ''You are an expert scientific translator '' @ nl
                   @ u ''specializing in translating research papers into '' @ language
                   @ u ''.'' @ nl
                   @ nl
                   @ u ''Rules:'' @ nl
                   @ u ''- Translate accurately and naturally into '' @ language @ nl
                   @ u ''- Preserve all technical terms correctly'' @ nl
                   @ u ''- Keep the academic tone of the original'' @ nl
                   @ u ''- Do not add explanations '' @ [8212] @ u '' only translate'' @ nl
                   @ u ''- If a technical term has no translation, keep it in English''),
                HumanMessage
                  (case cs of
                     [] \<Rightarrow>
                       u ''Translate the following research paper text into '' @ language
                       @ u '':'' @ nl @ nl @ txt @ nl @ nl
                       @ u ''Provide ONLY the translation, nothing else.''
                   | [a] \<Rightarrow>
                       u ''Use this reference context for correct technical terminology:''
                       @ nl @ nl
                       @ u ''[Reference 1]: '' @ s_text a
                       @ nl @ nl
                       @ u ''Now translate the following text into '' @ language @ u '':''
                       @ nl @ nl @ txt @ nl @ nl
                       @ u ''Provide ONLY the translation, nothing else.''
                   | a # b # rest \<Rightarrow>
                       u ''Use this reference context for correct technical terminology:''
                       @ nl @ nl
                       @ u ''[Reference 1]: '' @ s_text a @ nl @ nl
                       @ u ''[Reference 2]: '' @ s_text b
                       @ nl @ nl
                       @ u ''Now translate the following text into '' @ language @ u '':''
                       @ nl @ nl @ txt @ nl @ nl
                       @ u ''Provide ONLY the translation, nothing else.'')]
             in embedded (snd (translate P r txt language True w)) = embedded w @ [take 200 txt]
              \<and> llm_calls (snd (translate P r txt language True w)) = llm_calls w @ [msgs]
              \<and> fst (translate P r txt language True w) =
                  (case llm_reply P msgs of
                     Inl m \<Rightarrow> Inl (GenerationError m)
                   | Inr content \<Rightarrow>
                       Inr \<lparr>translation = content, target_language = language,
                            t_context_used = cs\<rparr>)))"
proof (intro conjI impI)
  assume "retrieve_with_scores P r (take 200 txt) w = (Inl e, w')"
  with assms show "translate P r txt language True w = (Inl e, w')"
    by (simp add: translate_def translation_context_def)
next
  assume R: "retrieve_with_scores P r (take 200 txt) w = (Inr (cs, avg), w')"
  from retrieve_with_scores_logs[OF R] have logs: "embedded w' = embedded w @ [take 200 txt]"
    "llm_calls w' = llm_calls w" by simp_all
  let ?refs = "join (nl @ nl) (map reference_part (enumerate 0 (take 2 cs)))"
  let ?human = "if cs = [] then human_without_context language txt
                else human_with_context ?refs language txt"
  have ctx: "translation_context P r txt True w = (Inr (if cs = [] then [] else ?refs, cs), w')"
    using R by (simp add: translation_context_def)
  have ne: "cs \<noteq> [] \<Longrightarrow> ?refs \<noteq> []" by (rule references_nonempty)
  have tr: "translate P r txt language True w =
              (case invoke P [SystemMessage (translate_system language), HumanMessage ?human] w' of
                 (Inl e, w2) \<Rightarrow> (Inl e, w2)
               | (Inr content, w2) \<Rightarrow>
                   (Inr \<lparr>translation = content, target_language = language,
                          t_context_used = cs\<rparr>, w2))"
    using assms ctx ne by (auto simp: translate_def)
  have human: "?human =
     (case cs of
        [] \<Rightarrow>
          u ''Translate the following research paper text into '' @ language
          @ u '':'' @ nl @ nl @ txt @ nl @ nl
          @ u ''Provide ONLY the translation, nothing else.''
      | [a] \<Rightarrow>
          u ''Use this reference context for correct technical terminology:''
          @ nl @ nl
          @ u ''[Reference 1]: '' @ s_text a
          @ nl @ nl
          @ u ''Now translate the following text into '' @ language @ u '':''
          @ nl @ nl @ txt @ nl @ nl
          @ u ''Provide ONLY the translation, nothing else.''
      | a # b # rest \<Rightarrow>
          u ''Use this reference context for correct technical terminology:''
          @ nl @ nl
          @ u ''[Reference 1]: '' @ s_text a @ nl @ nl
          @ u ''[Reference 2]: '' @ s_text b
          @ nl @ nl
          @ u ''Now translate the following text into '' @ language @ u '':''
          @ nl @ nl @ txt @ nl @ nl
          @ u ''Provide ONLY the translation, nothing else.'')"
  proof (cases cs)
    case Nil
    then show ?thesis by (simp add: human_without_context_def)
  next
    case (Cons a as)
    show ?thesis
    proof (cases as)
      case Nil
      with Cons show ?thesis
        by (simp only: references_first_two human_with_context_def list.case list.distinct
              if_False append_assoc)
    next
      case (Cons b rest)
      with \<open>cs = a # as\<close> show ?thesis
        by (simp only: references_first_two human_with_context_def list.case list.distinct
              if_False append_assoc)
    qed
  qed
  have sys: "translate_system language =
     u ''You are an expert scientific translator '' @ nl
     @ u ''specializing in translating research papers into '' @ language
     @ u ''.'' @ nl
     @ nl
     @ u ''Rules:'' @ nl
     @ u ''- Translate accurately and naturally into '' @ language @ nl
     @ u ''- Preserve all technical terms correctly'' @ nl
     @ u ''- Keep the academic tone of the original'' @ nl
     @ u ''- Do not add explanations '' @ [8212] @ u '' only translate'' @ nl
     @ u ''- If a technical term has no translation, keep it in English''"
    by (simp add: translate_system_def em_dash_def)
  show "(let msgs =
               [SystemMessage
                  (u ''You are an expert scientific translator '' @ nl
                   @ u ''specializing in translating research papers into '' @ language
                   @ u ''.'' @ nl
                   @ nl
                   @ u ''Rules:'' @ nl
                   @ u ''- Translate accurately and naturally into '' @ language @ nl
                   @ u ''- Preserve all technical terms correctly'' @ nl
                   @ u ''- Keep the academic tone of the original'' @ nl
                   @ u ''- Do not add explanations '' @ [8212] @ u '' only translate'' @ nl
                   @ u ''- If a technical term has no translation, keep it in English''),
                HumanMessage
                  (case cs of
                     [] \<Rightarrow>
                       u ''Translate the following research paper text into '' @ language
                       @ u '':'' @ nl @ nl @ txt @ nl @ nl
                       @ u ''Provide ONLY the translation, nothing else.''
                   | [a] \<Rightarrow>
                       u ''Use this reference context for correct technical terminology:''
                       @ nl @ nl
                       @ u ''[Reference 1]: '' @ s_text a
                       @ nl @ nl
                       @ u ''Now translate the following text into '' @ language @ u '':''
                       @ nl @ nl @ txt @ nl @ nl
                       @ u ''Provide ONLY the translation, nothing else.''
                   | a # b # rest \<Rightarrow>
                       u ''Use this reference context for correct technical terminology:''
                       @ nl @ nl
                       @ u ''[Reference 1]: '' @ s_text a @ nl @ nl
                       @ u ''[Reference 2]: '' @ s_text b
                       @ nl @ nl
                       @ u ''Now translate the following text into '' @ language @ u '':''
                       @ nl @ nl @ txt @ nl @ nl
                       @ u ''Provide ONLY the translation, nothing else.'')]
             in embedded (snd (translate P r txt language True w)) = embedded w @ [take 200 txt]
              \<and> llm_calls (snd (translate P r txt language True w)) = llm_calls w @ [msgs]
              \<and> fst (translate P r txt language True w) =
                  (case llm_reply P msgs of
                     Inl m \<Rightarrow> Inl (GenerationError m)
                   | Inr content \<Rightarrow>
                       Inr \<lparr>translation = content, target_language = language,
                            t_context_used = cs\<rparr>))"
    unfolding Let_def human[symmetric] sys[symmetric]
    using logs by (simp add: tr invoke_def split: sum.splits)
qed

theorem translate_prompt_from_prefix_witness:
  "embedded (snd (translate demo_ports papers_retriever long_text (u ''French'') True demo_world))
     = [replicate 200 97]
   \<and> llm_calls (snd (translate demo_ports papers_retriever long_text (u ''French'') True
        demo_world)) =
       [[SystemMessage french_system,
         HumanMessage
           (u ''Use this reference context for correct technical terminology:'' @ nl @ nl
            @ u ''[Reference 1]: same'' @ nl @ nl
            @ u ''[Reference 2]: half'' @ nl @ nl
            @ u ''Now translate the following text into French:'' @ nl @ nl
            @ long_text @ nl @ nl
            @ u ''Provide ONLY the translation, nothing else.'')]]
   \<and> llm_calls (snd (translate demo_ports drafts_retriever long_text (u ''French'') True
        demo_world)) =
       [[SystemMessage french_system,
         HumanMessage
           (u ''Translate the following research paper text into French:'' @ nl @ nl
            @ long_text @ nl @ nl
            @ u ''Provide ONLY the translation, nothing else.'')]]
   \<and> translate demo_ports papers_retriever padded_text (u ''French'') True demo_world =
       (Inl (ValueError (u ''Query cannot be empty'')), demo_world)"
proof -
  have e: "embedded demo_world = []" "llm_calls demo_world = []"
    by (simp_all add: demo_world_def)
  from translate_prompt_from_prefix[OF long_text_not_blank french_supported,
         where P = demo_ports and r = papers_retriever and w = demo_world
           and cs = papers_hits and avg = "4550437063495149 / 9007199254740992"
           and w' = "demo_world\<lparr>embedded := [replicate 200 97]\<rparr>"]
       demo_scores_papers_long
  have one: "embedded (snd (translate demo_ports papers_retriever long_text (u ''French'') True
          demo_world)) = [replicate 200 97]"
    and two: "llm_calls (snd (translate demo_ports papers_retriever long_text (u ''French'') True
        demo_world)) =
       [[SystemMessage french_system,
         HumanMessage
           (u ''Use this reference context for correct technical terminology:'' @ nl @ nl
            @ u ''[Reference 1]: same'' @ nl @ nl
            @ u ''[Reference 2]: half'' @ nl @ nl
            @ u ''Now translate the following text into French:'' @ nl @ nl
            @ long_text @ nl @ nl
            @ u ''Provide ONLY the translation, nothing else.'')]]"
    by (simp_all add: Let_def long_text_prefix e papers_hits_def french_system_def u_def)
  from translate_prompt_from_prefix[OF long_text_not_blank french_supported,
         where P = demo_ports and r = drafts_retriever and w = demo_world
           and cs = "[]" and avg = 0
           and w' = "demo_world\<lparr>embedded := [replicate 200 97]\<rparr>"]
       demo_scores_drafts_long
  have three: "llm_calls (snd (translate demo_ports drafts_retriever long_text (u ''French'') True
        demo_world)) =
       [[SystemMessage french_system,
         HumanMessage
           (u ''Translate the following research paper text into French:'' @ nl @ nl
            @ long_text @ nl @ nl
            @ u ''Provide ONLY the translation, nothing else.'')]]"
    by (simp add: Let_def long_text_prefix e french_system_def u_def)
  from translate_prompt_from_prefix[OF padded_text_not_blank french_supported,
         where P = demo_ports and r = papers_retriever and w = demo_world
           and e = "ValueError (u ''Query cannot be empty'')" and w' = demo_world]
       demo_scores_padded
  have four: "translate demo_ports papers_retriever padded_text (u ''French'') True demo_world =
       (Inl (ValueError (u ''Query cannot be empty'')), demo_world)"
    by (simp add: padded_text_prefix)
  from one two three four show ?thesis by (intro conjI)
qed


section \<open>The chunker\<close>

lemma nth_enumerate0: "i < length xs \<Longrightarrow> enumerate 0 xs ! i = (i, xs ! i)"
  by (simp add: nth_enumerate_eq)

lemma make_chunk_fields:
  "c_id (make_chunk s n (i, t)) = s @ u ''_chunk_'' @ str_of_nat i"
  "c_text (make_chunk s n (i, t)) = t"
  "map_of (c_metadata (make_chunk s n (i, t))) (u ''source'') = Some (MStr s)"
  "map_of (c_metadata (make_chunk s n (i, t))) (u ''chunk_index'') = Some (MInt (int i))"
  "map_of (c_metadata (make_chunk s n (i, t))) (u ''total_chunks'') = Some (MInt (int n))"
  "map_of (c_metadata (make_chunk s n (i, t))) (u ''char_count'') = Some (MInt (int (length t)))"
  by (simp_all add: make_chunk_def u_def)

lemma demo_pieces: "pieces 5 (u ''hello world!'') = [u ''hello'', u '' worl'', u ''d!'']"
  by code_simp

text \<open>
  Claim C8. After a successful \<open>split\<close> there is one chunk for each piece the splitter
  returned, in the splitter's order. The chunk at position \<open>i\<close> (counted from 0) has
  \<open>chunk_index = i\<close>, has \<open>total_chunks\<close> equal to the number of chunks of this call,
  has the id \<open>source_name + "_chunk_" + str(i)\<close>, a function of the source name and the
  index alone, and has \<open>char_count\<close> equal to the length of its text.
\<close>

theorem split_numbers_chunks:
  assumes "split P self txt source_name = Inr self'"
  shows "length (get_chunks self') =
           length (split_text P (chunk_size self) (chunk_overlap self) separators txt)
       \<and> (\<forall>i<length (get_chunks self').
             c_id (get_chunks self' ! i) = source_name @ u ''_chunk_'' @ str_of_nat i
           \<and> c_text (get_chunks self' ! i) =
               split_text P (chunk_size self) (chunk_overlap self) separators txt ! i
           \<and> map_of (c_metadata (get_chunks self' ! i)) (u ''source'') = Some (MStr source_name)
           \<and> map_of (c_metadata (get_chunks self' ! i)) (u ''chunk_index'') = Some (MInt (int i))
           \<and> map_of (c_metadata (get_chunks self' ! i)) (u ''total_chunks'')
               = Some (MInt (int (length (get_chunks self'))))
           \<and> map_of (c_metadata (get_chunks self' ! i)) (u ''char_count'')
               = Some (MInt (int (length (c_text (get_chunks self' ! i))))))"
proof -
  let ?raw = "split_text P (chunk_size self) (chunk_overlap self) separators txt"
  from assms have cs: "get_chunks self' = map (make_chunk source_name (length ?raw)) (enumerate 0 ?raw)"
    by (auto simp: split_def get_chunks_def Let_def split: if_splits)
  then have len: "length (get_chunks self') = length ?raw" by simp
  have "get_chunks self' ! i = make_chunk source_name (length ?raw) (i, ?raw ! i)"
    if "i < length ?raw" for i
    using that cs by (simp add: nth_enumerate0)
  with len show ?thesis by (simp add: make_chunk_fields)
qed

theorem split_numbers_chunks_witness:
  "split demo_ports \<lparr>chunk_size = 5, chunk_overlap = 0, chunks = []\<rparr> (u ''hello world!'')
     (u ''doc'') =
     Inr \<lparr>chunk_size = 5, chunk_overlap = 0,
          chunks = [make_chunk (u ''doc'') 3 (0, u ''hello''),
                    make_chunk (u ''doc'') 3 (1, u '' worl''),
                    make_chunk (u ''doc'') 3 (2, u ''d!'')]\<rparr>
   \<and> map c_id [make_chunk (u ''doc'') 3 (0, u ''hello''),
                make_chunk (u ''doc'') 3 (1, u '' worl''),
                make_chunk (u ''doc'') 3 (2, u ''d!'')]
       = [u ''doc_chunk_0'', u ''doc_chunk_1'', u ''doc_chunk_2'']
   \<and> map_of (c_metadata (make_chunk (u ''doc'') 3 (2, u ''d!''))) (u ''total_chunks'')
       = Some (MInt 3)"
proof -
  have nb: "strip (u ''hello world!'') \<noteq> [] \<and> u ''hello world!'' \<noteq> []"
    by (simp add: strip_def isspace_def u_def)
  have sp: "split_text demo_ports 5 0 separators (u ''hello world!'') =
              [u ''hello'', u '' worl'', u ''d!'']"
    by (simp add: demo_ports_def demo_pieces)
  have run: "split demo_ports \<lparr>chunk_size = 5, chunk_overlap = 0, chunks = []\<rparr>
               (u ''hello world!'') (u ''doc'') =
     Inr \<lparr>chunk_size = 5, chunk_overlap = 0,
          chunks = [make_chunk (u ''doc'') 3 (0, u ''hello''),
                    make_chunk (u ''doc'') 3 (1, u '' worl''),
                    make_chunk (u ''doc'') 3 (2, u ''d!'')]\<rparr>"
    using nb sp by (simp add: split_def enumerate_simps numeral_3_eq_3 numeral_2_eq_2)
  let ?cs = "[make_chunk (u ''doc'') 3 (0, u ''hello''),
              make_chunk (u ''doc'') 3 (1, u '' worl''),
              make_chunk (u ''doc'') 3 (2, u ''d!'')]"
  have g: "get_chunks \<lparr>chunk_size = 5, chunk_overlap = 0, chunks = ?cs\<rparr> = ?cs"
    by (simp add: get_chunks_def)
  note T = split_numbers_chunks[OF run, unfolded g, THEN conjunct2, rule_format]
  have i0: "c_id (?cs ! 0) = u ''doc_chunk_0''" using T[of 0] by (simp add: u_def str_of_nat.simps)
  have i1: "c_id (?cs ! 1) = u ''doc_chunk_1''" using T[of 1] by (simp add: u_def str_of_nat.simps)
  have i2: "c_id (?cs ! 2) = u ''doc_chunk_2''" using T[of 2] by (simp add: u_def str_of_nat.simps)
  have t2: "map_of (c_metadata (?cs ! 2)) (u ''total_chunks'') = Some (MInt 3)"
    using T[of 2] by simp
  from i0 i1 i2 t2 have "map c_id ?cs = [u ''doc_chunk_0'', u ''doc_chunk_1'', u ''doc_chunk_2'']"
    and "map_of (c_metadata (make_chunk (u ''doc'') 3 (2, u ''d!''))) (u ''total_chunks'')
       = Some (MInt 3)"
    by simp_all
  with run show ?thesis by simp
qed

end
